theory Spec2Isabelle
  imports Main
begin

section \<open>JavaScript values\<close>

text \<open>
  A JavaScript number is kept as an integer where it has an integral value and as
  \<open>NonIntegral\<close> otherwise (a fraction, NaN or an infinity). The tests the
  source applies to numbers (\<^verbatim>\<open>Number.isInteger\<close>, \<^verbatim>\<open><= 0\<close> after that test,
  membership in \<^verbatim>\<open>[0, 1]\<close>, \<^verbatim>\<open>== 0\<close>) give one answer on all non-integral values.
\<close>

datatype jsnum = Integral int | NonIntegral

text \<open>The primitive values that reach the setters from a JSON body, a route parameter
  or a result row.\<close>

datatype jsval = JUndefined | JNull | JBool bool | JNum jsnum | JStr string

text \<open>A plain object (a result row, a token payload): property names with their values.\<close>

type_synonym jsobject = "(string \<times> jsval) list"

definition get_prop :: "jsobject \<Rightarrow> string \<Rightarrow> jsval" where
  "get_prop obj k = (case map_of obj k of None \<Rightarrow> JUndefined | Some v \<Rightarrow> v)"

text \<open>
  What the source throws: a plain \<^verbatim>\<open>Error\<close> (the setters, the DAOs, the driver),
  a \<^verbatim>\<open>TypeError\<close> of the runtime (a property read on undefined), or the
  application's \<^verbatim>\<open>ErrorResponse(httpCode, message, error)\<close>, whose third argument
  is always an object with the one property \<^verbatim>\<open>message\<close>. Messages are written
  without their diacritics.
\<close>

datatype js_error =
    Error string
  | TypeError string
  | ErrorResponse nat string string

text \<open>\<^verbatim>\<open>Number(value)\<close> on a primitive; the conversion of a string is the
  runtime's StringToNumber, taken as the parameter \<open>str2num\<close>.\<close>

definition Number_js :: "(string \<Rightarrow> jsnum) \<Rightarrow> jsval \<Rightarrow> jsnum" where
  "Number_js str2num v =
     (case v of
        JUndefined \<Rightarrow> NonIntegral
      | JNull \<Rightarrow> Integral 0
      | JBool b \<Rightarrow> Integral (if b then 1 else 0)
      | JNum n \<Rightarrow> n
      | JStr s \<Rightarrow> str2num s)"

text \<open>\<^verbatim>\<open>v == n\<close> for an integer literal \<open>n\<close> (loose equality).\<close>

definition loose_eq_int :: "(string \<Rightarrow> jsnum) \<Rightarrow> jsval \<Rightarrow> int \<Rightarrow> bool" where
  "loose_eq_int str2num v n =
     (case v of
        JUndefined \<Rightarrow> False
      | JNull \<Rightarrow> False
      | _ \<Rightarrow> Number_js str2num v = Integral n)"

section \<open>Strings and regular expressions\<close>

text \<open>
  A \<open>char\<close> stands for a UTF-16 code unit below 256. White space
  (\<^verbatim>\<open>\s\<close>, and what \<^verbatim>\<open>trim()\<close> removes) in that range is TAB, LF, VT, FF, CR,
  SPACE and NBSP.
\<close>

definition is_space :: "char \<Rightarrow> bool" where
  "is_space c = (of_char c \<in> {9, 10, 11, 12, 13, 32, 160 :: nat})"

definition trim :: "string \<Rightarrow> string" where
  "trim s = rev (dropWhile is_space (rev (dropWhile is_space s)))"

definition is_upper :: "char \<Rightarrow> bool" where
  "is_upper c = (65 \<le> (of_char c :: nat) \<and> (of_char c :: nat) \<le> 90)"

definition is_digit :: "char \<Rightarrow> bool" where
  "is_digit c = (48 \<le> (of_char c :: nat) \<and> (of_char c :: nat) \<le> 57)"

text \<open>The class \<^verbatim>\<open>[!@#$%^&*(),.?":{}|<>]\<close>; the double quote is code 34.\<close>

definition special_chars :: "char list" where
  "special_chars = ''!@#$%^&*(),.?'' @ [char_of (34 :: nat)] @ '':{}|<>''"

definition is_special :: "char \<Rightarrow> bool" where
  "is_special c = (c \<in> set special_chars)"

text \<open>\<^verbatim>\<open>/[cls]/.test(s)\<close> for an unanchored one-character class.\<close>

definition test_class :: "(char \<Rightarrow> bool) \<Rightarrow> string \<Rightarrow> bool" where
  "test_class cls s = list_ex cls s"

text \<open>
  Anchored patterns are built from one character of a class, one or more characters
  of a class, and sequence. \<open>rmatch r s k\<close> holds when \<open>r\<close> matches a prefix of
  \<open>s\<close> and the continuation \<open>k\<close> accepts the rest.
\<close>

datatype regex = One "char \<Rightarrow> bool" | Many1 "char \<Rightarrow> bool" | Then regex regex

fun rmatch :: "regex \<Rightarrow> string \<Rightarrow> (string \<Rightarrow> bool) \<Rightarrow> bool" where
  "rmatch (One p) [] k = False"
| "rmatch (One p) (c # cs) k = (p c \<and> k cs)"
| "rmatch (Many1 p) [] k = False"
| "rmatch (Many1 p) (c # cs) k = (p c \<and> (k cs \<or> rmatch (Many1 p) cs k))"
| "rmatch (Then a b) s k = rmatch a s (\<lambda>rest. rmatch b rest k)"

text \<open>\<^verbatim>\<open>/^r$/.test(s)\<close>\<close>

definition test_anchored :: "regex \<Rightarrow> string \<Rightarrow> bool" where
  "test_anchored r s = rmatch r s (\<lambda>rest. rest = [])"

text \<open>\<^verbatim>\<open>[^\s@]\<close>\<close>

definition not_space_at :: "char \<Rightarrow> bool" where
  "not_space_at c = (\<not> is_space c \<and> c \<noteq> CHR ''@'')"

text \<open>\<^verbatim>\<open>/^[^\s@]+@[^\s@]+\.[^\s@]+$/\<close>\<close>

definition emailRegex :: regex where
  "emailRegex =
     Then (Many1 not_space_at)
       (Then (One (\<lambda>c. c = CHR ''@''))
         (Then (Many1 not_space_at)
           (Then (One (\<lambda>c. c = CHR ''.''))
             (Many1 not_space_at))))"

section \<open>The value objects\<close>

subsection \<open>Cargo (api/models/Cargo.js)\<close>

text \<open>A private field that has not been assigned reads as undefined: \<open>None\<close>.\<close>

record Cargo =
  idCargo :: "int option"
  nomeCargo :: "string option"

definition new_Cargo :: Cargo where
  "new_Cargo = \<lparr>idCargo = None, nomeCargo = None\<rparr>"

definition Cargo_set_idCargo :: "(string \<Rightarrow> jsnum) \<Rightarrow> jsval \<Rightarrow> Cargo \<Rightarrow> js_error + Cargo" where
  "Cargo_set_idCargo str2num v this =
     (case Number_js str2num v of
        NonIntegral \<Rightarrow> Inl (Error ''idCargo deve ser um numero inteiro.'')
      | Integral parsed \<Rightarrow>
          if parsed \<le> 0 then Inl (Error ''idCargo deve ser maior que zero.'')
          else Inr (this\<lparr>idCargo := Some parsed\<rparr>))"

definition Cargo_set_nomeCargo :: "jsval \<Rightarrow> Cargo \<Rightarrow> js_error + Cargo" where
  "Cargo_set_nomeCargo v this =
     (case v of
        JStr s \<Rightarrow>
          (let nome = trim s in
           if length nome < 3 then Inl (Error ''nomeCargo deve ter pelo menos 3 caracteres.'')
           else if length nome > 64 then Inl (Error ''nomeCargo deve ter no maximo 64 caracteres.'')
           else Inr (this\<lparr>nomeCargo := Some nome\<rparr>))
      | _ \<Rightarrow> Inl (Error ''nomeCargo deve ser uma string.''))"

subsection \<open>Funcionario (api/model/Funcionario.js)\<close>

record Funcionario =
  idFuncionario :: "int option"
  cargo :: "Cargo option"
  nomeFuncionario :: "string option"
  email :: "string option"
  senha :: "string option"
  recebeValeTransporte :: "int option"

definition new_Funcionario :: Funcionario where
  "new_Funcionario =
     \<lparr>idFuncionario = None, cargo = None, nomeFuncionario = None, email = None,
      senha = None, recebeValeTransporte = None\<rparr>"

definition Funcionario_set_idFuncionario ::
  "(string \<Rightarrow> jsnum) \<Rightarrow> jsval \<Rightarrow> Funcionario \<Rightarrow> js_error + Funcionario" where
  "Funcionario_set_idFuncionario str2num valor this =
     (case Number_js str2num valor of
        NonIntegral \<Rightarrow> Inl (Error ''idFuncionario deve ser um numero inteiro.'')
      | Integral parsed \<Rightarrow>
          if parsed \<le> 0 then Inl (Error ''idFuncionario deve ser um numero inteiro positivo.'')
          else Inr (this\<lparr>idFuncionario := Some parsed\<rparr>))"

text \<open>The argument of the \<open>cargo\<close> setter is an instance of Cargo (\<open>Inr\<close>) or
  some other value (\<open>Inl\<close>), which \<^verbatim>\<open>instanceof\<close> rejects.\<close>

definition Funcionario_set_cargo :: "jsval + Cargo \<Rightarrow> Funcionario \<Rightarrow> js_error + Funcionario" where
  "Funcionario_set_cargo v this =
     (case v of
        Inl other \<Rightarrow> Inl (Error ''cargo deve ser uma instancia valida de Cargo.'')
      | Inr c \<Rightarrow> Inr (this\<lparr>cargo := Some c\<rparr>))"

definition Funcionario_set_nomeFuncionario :: "jsval \<Rightarrow> Funcionario \<Rightarrow> js_error + Funcionario" where
  "Funcionario_set_nomeFuncionario v this =
     (case v of
        JStr s \<Rightarrow>
          (let nome = trim s in
           if length nome < 3 then Inl (Error ''nomeFuncionario deve ter pelo menos 3 caracteres.'')
           else Inr (this\<lparr>nomeFuncionario := Some nome\<rparr>))
      | _ \<Rightarrow> Inl (Error ''nomeFuncionario deve ser uma string.''))"

definition Funcionario_set_email :: "jsval \<Rightarrow> Funcionario \<Rightarrow> js_error + Funcionario" where
  "Funcionario_set_email v this =
     (case v of
        JStr s \<Rightarrow>
          (let emailTrimmed = trim s in
           if emailTrimmed = [] then Inl (Error ''email nao pode ser vazio.'')
           else if \<not> test_anchored emailRegex emailTrimmed then Inl (Error ''email em formato invalido.'')
           else Inr (this\<lparr>email := Some emailTrimmed\<rparr>))
      | _ \<Rightarrow> Inl (Error ''email deve ser uma string.''))"

definition Funcionario_set_senha :: "jsval \<Rightarrow> Funcionario \<Rightarrow> js_error + Funcionario" where
  "Funcionario_set_senha v this =
     (case v of
        JStr s \<Rightarrow>
          (let senhaTrimmed = trim s in
           if senhaTrimmed = [] then Inl (Error ''senha nao pode ser vazia.'')
           else if length senhaTrimmed < 6 then Inl (Error ''senha deve ter pelo menos 6 caracteres.'')
           else if \<not> test_class is_upper senhaTrimmed
             then Inl (Error ''senha deve conter pelo menos uma letra maiuscula.'')
           else if \<not> test_class is_digit senhaTrimmed
             then Inl (Error ''senha deve conter pelo menos um numero.'')
           else if \<not> test_class is_special senhaTrimmed
             then Inl (Error ''senha deve conter pelo menos um caractere especial.'')
           else Inr (this\<lparr>senha := Some senhaTrimmed\<rparr>))
      | _ \<Rightarrow> Inl (Error ''senha deve ser uma string.''))"

text \<open>\<^verbatim>\<open>[0, 1].includes(value)\<close> holds of the numbers 0 and 1 only.\<close>

definition Funcionario_set_recebeValeTransporte :: "jsval \<Rightarrow> Funcionario \<Rightarrow> js_error + Funcionario" where
  "Funcionario_set_recebeValeTransporte v this =
     (case v of
        JNum (Integral n) \<Rightarrow>
          if n = 0 \<or> n = 1 then Inr (this\<lparr>recebeValeTransporte := Some n\<rparr>)
          else Inl (Error ''recebeValeTransporte deve ser 0 ou 1.'')
      | _ \<Rightarrow> Inl (Error ''recebeValeTransporte deve ser 0 ou 1.''))"

section \<open>The error responder (Server.js, setupErrorMiddleware)\<close>

text \<open>
  The status and, of the JSON body, \<^verbatim>\<open>message\<close> and \<^verbatim>\<open>error.message\<close>. An error that
  is not an instance of ErrorResponse gets status 500 and the generic message, with
  \<^verbatim>\<open>error.message || "Erro interno"\<close> as detail.
\<close>

record response =
  status :: nat
  message :: string
  detail :: string

definition internal_error :: "string \<Rightarrow> response" where
  "internal_error msg =
     \<lparr>status = 500, message = ''Ocorreu um erro interno no servidor'',
      detail = (if msg = [] then ''Erro interno'' else msg)\<rparr>"

definition errorHandler :: "js_error \<Rightarrow> response" where
  "errorHandler error =
     (case error of
        ErrorResponse httpCode msg err \<Rightarrow> \<lparr>status = httpCode, message = msg, detail = err\<rparr>
      | Error msg \<Rightarrow> internal_error msg
      | TypeError msg \<Rightarrow> internal_error msg)"

section \<open>External collaborators\<close>

text \<open>
  What the MySQL driver resolves \<^verbatim>\<open>pool.execute\<close> with: the rows of a SELECT, or
  the header of an INSERT, UPDATE or DELETE with its \<^verbatim>\<open>insertId\<close> and
  \<^verbatim>\<open>affectedRows\<close>.
\<close>

datatype driver_result = Rows "jsobject list" | ResultSetHeader nat nat

text \<open>\<^verbatim>\<open>resultado.length\<close>, \<^verbatim>\<open>resultado[0]\<close>, \<^verbatim>\<open>resultado.insertId\<close> and
  \<^verbatim>\<open>resultado.affectedRows\<close>; \<open>None\<close> is undefined.\<close>

fun result_length :: "driver_result \<Rightarrow> nat option" where
  "result_length (Rows rs) = Some (length rs)"
| "result_length (ResultSetHeader i a) = None"

fun first_row :: "driver_result \<Rightarrow> jsobject option" where
  "first_row (Rows []) = None"
| "first_row (Rows (r # rs)) = Some r"
| "first_row (ResultSetHeader i a) = None"

fun insertId :: "driver_result \<Rightarrow> nat option" where
  "insertId (Rows rs) = None"
| "insertId (ResultSetHeader i a) = Some i"

fun affectedRows :: "driver_result \<Rightarrow> nat option" where
  "affectedRows (Rows rs) = None"
| "affectedRows (ResultSetHeader i a) = Some a"

text \<open>\<^verbatim>\<open>x > 0\<close> where \<open>x\<close> is a count or undefined.\<close>

fun gt0 :: "nat option \<Rightarrow> bool" where
  "gt0 None = False"
| "gt0 (Some n) = (0 < n)"

text \<open>
  The collaborators the source calls and this repository does not define, as parameters:
  the runtime's StringToNumber and \<^verbatim>\<open>parseInt\<close>, bcrypt's \<^verbatim>\<open>hash(data, rounds)\<close>
  and \<^verbatim>\<open>compare(data, hash)\<close> (which reject, \<open>Inl\<close>, or resolve, \<open>Inr\<close>), and
  the driver's \<^verbatim>\<open>pool.execute(SQL, params)\<close> on a store of type \<open>'s\<close>.
\<close>

record 's runtime =
  StringToNumber :: "string \<Rightarrow> jsnum"
  parseInt :: "jsval \<Rightarrow> jsnum"
  bcrypt_hash :: "jsval \<Rightarrow> nat \<Rightarrow> string + string"
  bcrypt_compare :: "jsval \<Rightarrow> jsval \<Rightarrow> string + bool"
  pool_execute :: "string \<Rightarrow> jsval list \<Rightarrow> 's \<Rightarrow> (string + driver_result) \<times> 's"

text \<open>The database as the DAOs see it: the store, and the statements executed so far
  with their bound parameters.\<close>

record 's mysql =
  store :: 's
  executed :: "(string \<times> jsval list) list"

section \<open>Asynchronous functions\<close>

text \<open>
  An async function is a function from the database to a result (a thrown or rejected
  error is \<open>Inl\<close>) and the database afterwards. \<open>bind_io\<close> is \<^verbatim>\<open>await\<close>
  followed by the rest of the body: an error ends the body.
\<close>

type_synonym ('s, 'a) io = "'s mysql \<Rightarrow> (js_error + 'a) \<times> 's mysql"

definition return_io :: "'a \<Rightarrow> ('s, 'a) io" where
  "return_io x = (\<lambda>db. (Inr x, db))"

definition throw :: "js_error \<Rightarrow> ('s, 'a) io" where
  "throw e = (\<lambda>db. (Inl e, db))"

definition sync :: "js_error + 'a \<Rightarrow> ('s, 'a) io" where
  "sync r = (\<lambda>db. (r, db))"

definition bind_io :: "('s, 'a) io \<Rightarrow> ('a \<Rightarrow> ('s, 'b) io) \<Rightarrow> ('s, 'b) io" where
  "bind_io m f = (\<lambda>db. case m db of (Inl e, db') \<Rightarrow> (Inl e, db') | (Inr x, db') \<Rightarrow> f x db')"

definition bind_sum :: "'e + 'a \<Rightarrow> ('a \<Rightarrow> 'e + 'b) \<Rightarrow> 'e + 'b" where
  "bind_sum r f = (case r of Inl e \<Rightarrow> Inl e | Inr x \<Rightarrow> f x)"

text \<open>
  A call of an async function that is not awaited: its statements are issued, and the
  caller holds a promise of the outcome, whatever it is. A promise has no property
  \<^verbatim>\<open>length\<close>.
\<close>

datatype 'a promise = Promise "js_error + 'a"

definition unawaited :: "('s, 'a) io \<Rightarrow> ('s, 'a promise) io" where
  "unawaited m = (\<lambda>db. case m db of (r, db') \<Rightarrow> (Inr (Promise r), db'))"

definition promise_length :: "'a promise \<Rightarrow> jsval" where
  "promise_length p = JUndefined"

text \<open>\<^verbatim>\<open>const [resultado] = await pool.execute(SQL, params)\<close>; a rejection of the driver
  is a plain Error.\<close>

definition execute :: "'s runtime \<Rightarrow> string \<Rightarrow> jsval list \<Rightarrow> ('s, driver_result) io" where
  "execute rt SQL params =
     (\<lambda>db. case pool_execute rt SQL params (store db) of
        (r, s') \<Rightarrow>
          ((case r of Inl msg \<Rightarrow> Inl (Error msg) | Inr resultado \<Rightarrow> Inr resultado),
           \<lparr>store = s', executed = executed db @ [(SQL, params)]\<rparr>))"

definition bcrypt_hash_io :: "'s runtime \<Rightarrow> jsval \<Rightarrow> nat \<Rightarrow> ('s, string) io" where
  "bcrypt_hash_io rt v rounds =
     sync (case bcrypt_hash rt v rounds of Inl msg \<Rightarrow> Inl (Error msg) | Inr h \<Rightarrow> Inr h)"

definition bcrypt_compare_io :: "'s runtime \<Rightarrow> jsval \<Rightarrow> jsval \<Rightarrow> ('s, bool) io" where
  "bcrypt_compare_io rt v h =
     sync (case bcrypt_compare rt v h of Inl msg \<Rightarrow> Inl (Error msg) | Inr b \<Rightarrow> Inr b)"

text \<open>The value of a getter as a bound parameter.\<close>

definition js_str :: "string option \<Rightarrow> jsval" where
  "js_str x = (case x of None \<Rightarrow> JUndefined | Some s \<Rightarrow> JStr s)"

definition js_int :: "int option \<Rightarrow> jsval" where
  "js_int x = (case x of None \<Rightarrow> JUndefined | Some n \<Rightarrow> JNum (Integral n))"

section \<open>CargoDAO (api/dao/CargoDAO.js)\<close>

definition CargoDAO_allowedFields :: "string list" where
  "CargoDAO_allowedFields = [''idCargo'', ''nomeCargo'']"

definition CargoDAO_findByField :: "'s runtime \<Rightarrow> string \<Rightarrow> jsval \<Rightarrow> ('s, driver_result) io" where
  "CargoDAO_findByField rt field v =
     (if field \<notin> set CargoDAO_allowedFields
      then throw (Error (''Campo invalido para busca: '' @ field))
      else execute rt (''SELECT * FROM cargo WHERE '' @ field @ '' = ?;'') [v])"

definition CargoDAO_create :: "'s runtime \<Rightarrow> Cargo \<Rightarrow> ('s, nat) io" where
  "CargoDAO_create rt objCargoModel =
     bind_io (execute rt ''INSERT INTO cargo (nomeCargo) VALUES (?);'' [js_str (nomeCargo objCargoModel)])
       (\<lambda>resultado.
          case insertId resultado of
            None \<Rightarrow> throw (Error ''Falha ao inserir cargo'')
          | Some i \<Rightarrow> if i = 0 then throw (Error ''Falha ao inserir cargo'') else return_io i)"

section \<open>FuncionarioDAO (api/dao/FuncionarioDAO.js)\<close>

text \<open>The statements; the line breaks and indentation of the template literals are
  written as single spaces.\<close>

definition SQL_insert_funcionario :: string where
  "SQL_insert_funcionario =
     ''INSERT INTO funcionario (nomeFuncionario, email, senha, recebeValeTransporte, Cargo_idCargo) VALUES (?, ?, ?, ?, ?);''"

definition SQL_update_com_senha :: string where
  "SQL_update_com_senha =
     ''UPDATE funcionario SET nomeFuncionario=?, email=?, senha=?, recebeValeTransporte=?, Cargo_idCargo=? WHERE idFuncionario=?;''"

definition SQL_update_sem_senha :: string where
  "SQL_update_sem_senha =
     ''UPDATE funcionario SET nomeFuncionario=?, email=?, recebeValeTransporte=?, Cargo_idCargo=? WHERE idFuncionario=?;''"

definition SQL_login :: string where
  "SQL_login =
     ''SELECT idFuncionario, nomeFuncionario, email, senha, recebeValeTransporte, idCargo, nomeCargo FROM funcionario JOIN cargo ON cargo.idCargo = funcionario.Cargo_idCargo WHERE email = ?;''"

text \<open>\<^verbatim>\<open>objFuncionarioModel.cargo.idCargo\<close>: a TypeError when no cargo was assigned.\<close>

definition cargo_idCargo :: "Funcionario \<Rightarrow> js_error + jsval" where
  "cargo_idCargo f =
     (case cargo f of
        None \<Rightarrow> Inl (TypeError ''Cannot read properties of undefined (reading idCargo)'')
      | Some c \<Rightarrow> Inr (js_int (idCargo c)))"

text \<open>
  \<open>create\<close> assigns the digest to \<^verbatim>\<open>objFuncionarioModel.senha\<close>, that is, through the
  setter; the caller's object is the one changed, so the changed object is returned
  with the id.
\<close>

definition FuncionarioDAO_create :: "'s runtime \<Rightarrow> Funcionario \<Rightarrow> ('s, nat \<times> Funcionario) io" where
  "FuncionarioDAO_create rt objFuncionarioModel =
     bind_io (bcrypt_hash_io rt (js_str (senha objFuncionarioModel)) 12) (\<lambda>digest.
     bind_io (sync (Funcionario_set_senha (JStr digest) objFuncionarioModel)) (\<lambda>obj.
     bind_io (sync (cargo_idCargo obj)) (\<lambda>idc.
     bind_io (execute rt SQL_insert_funcionario
                [js_str (nomeFuncionario obj), js_str (email obj), js_str (senha obj),
                 js_int (recebeValeTransporte obj), idc]) (\<lambda>resultado.
       case insertId resultado of
         None \<Rightarrow> throw (Error ''Falha ao inserir funcionario'')
       | Some i \<Rightarrow> if i = 0 then throw (Error ''Falha ao inserir funcionario'') else return_io (i, obj)))))"

definition FuncionarioDAO_delete :: "'s runtime \<Rightarrow> Funcionario \<Rightarrow> ('s, bool) io" where
  "FuncionarioDAO_delete rt objFuncionarioModel =
     bind_io (execute rt ''DELETE FROM funcionario WHERE idFuncionario = ?;''
                [js_int (idFuncionario objFuncionarioModel)])
       (\<lambda>resultado. return_io (gt0 (affectedRows resultado)))"

text \<open>\<^verbatim>\<open>if (objFuncionarioModel.senha)\<close>: undefined and the empty string are falsy.\<close>

definition FuncionarioDAO_update :: "'s runtime \<Rightarrow> Funcionario \<Rightarrow> ('s, bool) io" where
  "FuncionarioDAO_update rt objFuncionarioModel =
     (if senha objFuncionarioModel \<noteq> None \<and> senha objFuncionarioModel \<noteq> Some []
      then
        bind_io (bcrypt_hash_io rt (js_str (senha objFuncionarioModel)) 12) (\<lambda>senhaHash.
        bind_io (sync (cargo_idCargo objFuncionarioModel)) (\<lambda>idc.
        bind_io (execute rt SQL_update_com_senha
                   [js_str (nomeFuncionario objFuncionarioModel), js_str (email objFuncionarioModel),
                    JStr senhaHash, js_int (recebeValeTransporte objFuncionarioModel), idc,
                    js_int (idFuncionario objFuncionarioModel)])
          (\<lambda>resultado. return_io (gt0 (affectedRows resultado)))))
      else
        bind_io (sync (cargo_idCargo objFuncionarioModel)) (\<lambda>idc.
        bind_io (execute rt SQL_update_sem_senha
                   [js_str (nomeFuncionario objFuncionarioModel), js_str (email objFuncionarioModel),
                    js_int (recebeValeTransporte objFuncionarioModel), idc,
                    js_int (idFuncionario objFuncionarioModel)])
          (\<lambda>resultado. return_io (gt0 (affectedRows resultado)))))"

definition FuncionarioDAO_allowedFields :: "string list" where
  "FuncionarioDAO_allowedFields =
     [''idFuncionario'', ''nomeFuncionario'', ''email'', ''senha'', ''recebeValeTransporte'',
      ''Cargo_idCargo'']"

definition FuncionarioDAO_findByField :: "'s runtime \<Rightarrow> string \<Rightarrow> jsval \<Rightarrow> ('s, driver_result) io" where
  "FuncionarioDAO_findByField rt field v =
     (if field \<notin> set FuncionarioDAO_allowedFields
      then throw (Error ''Campo invalido para busca'')
      else execute rt (''SELECT * FROM funcionario WHERE '' @ field @ '' = ?;'') [v])"

text \<open>The objects \<open>login\<close> builds from the row it found, setter by setter.\<close>

definition login_build :: "'s runtime \<Rightarrow> jsobject \<Rightarrow> js_error + Funcionario" where
  "login_build rt funcionarioDB =
     bind_sum (Cargo_set_idCargo (StringToNumber rt)
                 (JNum (parseInt rt (get_prop funcionarioDB ''idCargo''))) new_Cargo) (\<lambda>c1.
     bind_sum (Cargo_set_nomeCargo (get_prop funcionarioDB ''nomeCargo'') c1) (\<lambda>objCargo.
     bind_sum (Funcionario_set_idFuncionario (StringToNumber rt)
                 (get_prop funcionarioDB ''idFuncionario'') new_Funcionario) (\<lambda>f1.
     bind_sum (Funcionario_set_nomeFuncionario (get_prop funcionarioDB ''nomeFuncionario'') f1) (\<lambda>f2.
     bind_sum (Funcionario_set_email (get_prop funcionarioDB ''email'') f2) (\<lambda>f3.
     bind_sum (Funcionario_set_recebeValeTransporte
                 (get_prop funcionarioDB ''recebeValeTransporte'') f3) (\<lambda>f4.
     Funcionario_set_cargo (Inr objCargo) f4))))))"

text \<open>\<open>None\<close> is the \<^verbatim>\<open>null\<close> that \<open>login\<close> returns.\<close>

definition FuncionarioDAO_login :: "'s runtime \<Rightarrow> Funcionario \<Rightarrow> ('s, Funcionario option) io" where
  "FuncionarioDAO_login rt objFuncionarioModel =
     bind_io (execute rt SQL_login [js_str (email objFuncionarioModel)]) (\<lambda>resultado.
       if result_length resultado \<noteq> Some 1 then return_io None
       else
         case first_row resultado of
           None \<Rightarrow> throw (TypeError ''Cannot read properties of undefined (reading senha)'')
         | Some funcionarioDB \<Rightarrow>
             bind_io (bcrypt_compare_io rt (js_str (senha objFuncionarioModel))
                        (get_prop funcionarioDB ''senha'')) (\<lambda>senhaValida.
               if \<not> senhaValida then return_io None
               else bind_io (sync (login_build rt funcionarioDB))
                      (\<lambda>funcionario. return_io (Some funcionario))))"

section \<open>Request bodies\<close>

text \<open>
  The JSON object \<^verbatim>\<open>request.body.cargo\<close>, or the member \<^verbatim>\<open>cargo\<close> of
  \<^verbatim>\<open>request.body.funcionario\<close>; a property that is absent reads as \<open>JUndefined\<close>.
\<close>

record CargoJson =
  json_idCargo :: jsval
  json_nomeCargo :: jsval

text \<open>\<^verbatim>\<open>request.body.funcionario\<close>; \<open>json_cargo = None\<close> when the member
  \<^verbatim>\<open>cargo\<close> is absent or null.\<close>

record FuncionarioJson =
  json_nomeFuncionario :: jsval
  json_email :: jsval
  json_senha :: jsval
  json_recebeValeTransporte :: jsval
  json_cargo :: "CargoJson option"

record requestBody =
  body_funcionario :: "FuncionarioJson option"

text \<open>A value of a getter inside a template literal.\<close>

definition template :: "string option \<Rightarrow> string" where
  "template x = (case x of None \<Rightarrow> ''undefined'' | Some s \<Rightarrow> s)"

section \<open>CargoService (api/service/CargoService.js)\<close>

definition createCargo :: "'s runtime \<Rightarrow> CargoJson \<Rightarrow> ('s, nat) io" where
  "createCargo rt cargoJson =
     bind_io (sync (Cargo_set_nomeCargo (json_nomeCargo cargoJson) new_Cargo)) (\<lambda>cargo.
     bind_io (CargoDAO_findByField rt ''nomeCargo'' (js_str (nomeCargo cargo))) (\<lambda>resultado.
       if gt0 (result_length resultado)
       then throw (ErrorResponse 400 ''Cargo ja existe''
                     (''O cargo '' @ template (nomeCargo cargo) @ '' ja existe''))
       else CargoDAO_create rt cargo))"

section \<open>FuncionarioService (api/services/FuncionarioService.js)\<close>

text \<open>The five assignments of \<open>createFuncionario\<close> to a new Funcionario, in the
  order of the source.\<close>

definition create_assign :: "FuncionarioJson \<Rightarrow> Cargo \<Rightarrow> js_error + Funcionario" where
  "create_assign jsonFuncionario objetoCargo =
     bind_sum (Funcionario_set_nomeFuncionario (json_nomeFuncionario jsonFuncionario) new_Funcionario) (\<lambda>f1.
     bind_sum (Funcionario_set_email (json_email jsonFuncionario) f1) (\<lambda>f2.
     bind_sum (Funcionario_set_senha (json_senha jsonFuncionario) f2) (\<lambda>f3.
     bind_sum (Funcionario_set_recebeValeTransporte (json_recebeValeTransporte jsonFuncionario) f3) (\<lambda>f4.
     Funcionario_set_cargo (Inr objetoCargo) f4))))"

text \<open>
  The call of \<^verbatim>\<open>this.#cargoDAO.findByField\<close> is written without \<^verbatim>\<open>await\<close> in the
  source, so \<open>cargoExiste\<close> is a promise; the call of
  \<^verbatim>\<open>this.#funcionarioDAO.findByField\<close> is awaited. The object that
  \<open>FuncionarioDAO_create\<close> changed is the one that receives the id and is returned.
\<close>

definition createFuncionario :: "'s runtime \<Rightarrow> FuncionarioJson \<Rightarrow> ('s, Funcionario) io" where
  "createFuncionario rt jsonFuncionario =
     (case json_cargo jsonFuncionario of
        None \<Rightarrow> throw (TypeError ''Cannot read properties of undefined (reading idCargo)'')
      | Some cargoJson \<Rightarrow>
     bind_io (sync (Cargo_set_idCargo (StringToNumber rt) (json_idCargo cargoJson) new_Cargo)) (\<lambda>objetoCargo.
     bind_io (sync (create_assign jsonFuncionario objetoCargo)) (\<lambda>objFuncionario.
     bind_io (unawaited (CargoDAO_findByField rt ''idCargo'' (js_int (idCargo objetoCargo)))) (\<lambda>cargoExiste.
       if loose_eq_int (StringToNumber rt) (promise_length cargoExiste) 0
       then throw (ErrorResponse 400 ''O cargo informado nao existe''
                     (''O email '' @ template (email objFuncionario) @ '' ja esta cadastrado''))
       else
     bind_io (FuncionarioDAO_findByField rt ''email'' (js_str (email objFuncionario))) (\<lambda>emailExiste.
       if gt0 (result_length emailExiste)
       then throw (ErrorResponse 400 ''Ja existe um Funcionario com o email fornecido''
                     (''O email '' @ template (email objFuncionario) @ '' ja esta cadastrado''))
       else
     bind_io (FuncionarioDAO_create rt objFuncionario) (\<lambda>(novoId, obj).
       sync (Funcionario_set_idFuncionario (StringToNumber rt) (JNum (Integral (int novoId))) obj)))))))"

text \<open>The token service (api/http/MeuTokenJWT.js) is a parameter as well:
  \<open>gerarToken\<close> signs a set of claims, and \<open>validarToken\<close> gives the value it
  returns for a header with the payload it leaves in \<^verbatim>\<open>jwt.payload\<close>.\<close>

record MeuTokenJWT =
  gerarToken :: "jsobject \<Rightarrow> string"
  validarToken :: "jsval \<Rightarrow> jsval \<times> jsobject"

record login_result =
  user :: jsobject
  token :: string

text \<open>\<^verbatim>\<open>x || null\<close> for a string getter.\<close>

definition or_null :: "string option \<Rightarrow> jsval" where
  "or_null x = (case x of None \<Rightarrow> JNull | Some s \<Rightarrow> if s = [] then JNull else JStr s)"

definition loginFuncionario ::
  "'s runtime \<Rightarrow> MeuTokenJWT \<Rightarrow> FuncionarioJson \<Rightarrow> ('s, login_result) io" where
  "loginFuncionario rt jwt jsonFuncionario =
     bind_io (sync (Funcionario_set_email (json_email jsonFuncionario) new_Funcionario)) (\<lambda>f1.
     bind_io (sync (Funcionario_set_senha (json_senha jsonFuncionario) f1)) (\<lambda>objetoFuncionario.
     bind_io (FuncionarioDAO_login rt objetoFuncionario) (\<lambda>encontrado.
       case encontrado of
         None \<Rightarrow> throw (ErrorResponse 401 ''Usuario ou senha invalidos''
                          ''Nao foi possivel realizar autenticacao'')
       | Some e \<Rightarrow>
           (let funcionario =
                  [(''email'', js_str (email e)),
                   (''role'', or_null (case cargo e of None \<Rightarrow> None | Some c \<Rightarrow> nomeCargo c)),
                   (''name'', or_null (nomeFuncionario e)),
                   (''idFuncionario'', js_int (idFuncionario e))]
            in return_io \<lparr>user = funcionario, token = gerarToken jwt funcionario\<rparr>))))"

text \<open>The six assignments of \<open>updateFuncionario\<close>, in the order of the source.\<close>

definition update_assign ::
  "(string \<Rightarrow> jsnum) \<Rightarrow> jsval \<Rightarrow> FuncionarioJson \<Rightarrow> Cargo \<Rightarrow> js_error + Funcionario" where
  "update_assign str2num idFunc jsonFuncionario objCargo =
     bind_sum (Funcionario_set_idFuncionario str2num idFunc new_Funcionario) (\<lambda>f0.
     bind_sum (Funcionario_set_nomeFuncionario (json_nomeFuncionario jsonFuncionario) f0) (\<lambda>f1.
     bind_sum (Funcionario_set_email (json_email jsonFuncionario) f1) (\<lambda>f2.
     bind_sum (Funcionario_set_senha (json_senha jsonFuncionario) f2) (\<lambda>f3.
     bind_sum (Funcionario_set_recebeValeTransporte (json_recebeValeTransporte jsonFuncionario) f3) (\<lambda>f4.
     Funcionario_set_cargo (Inr objCargo) f4)))))"

definition updateFuncionario :: "'s runtime \<Rightarrow> jsval \<Rightarrow> requestBody \<Rightarrow> ('s, bool) io" where
  "updateFuncionario rt idFunc body =
     (case body_funcionario body of
        None \<Rightarrow> throw (TypeError ''Cannot read properties of undefined (reading cargo)'')
      | Some jsonFuncionario \<Rightarrow>
     (case json_cargo jsonFuncionario of
        None \<Rightarrow> throw (TypeError ''Cannot read properties of undefined (reading idCargo)'')
      | Some cargoJson \<Rightarrow>
     bind_io (sync (Cargo_set_idCargo (StringToNumber rt) (json_idCargo cargoJson) new_Cargo)) (\<lambda>objCargo.
     bind_io (sync (update_assign (StringToNumber rt) idFunc jsonFuncionario objCargo)) (\<lambda>objFuncionario.
     FuncionarioDAO_update rt objFuncionario))))"

section \<open>JwtMiddleware (api/middleware/JwtMiddleware.js)\<close>

text \<open>
  Of the request, the header \<^verbatim>\<open>authorization\<close> (undefined when absent).
  \<open>response c b\<close> is \<^verbatim>\<open>response.status(c).send(b)\<close>, and \<open>next\<close> the handler
  that follows in the route.
\<close>

record request =
  authorization :: jsval

definition validateToken ::
  "MeuTokenJWT \<Rightarrow> 'a request_scheme \<Rightarrow> (nat \<Rightarrow> jsobject \<Rightarrow> 'k) \<Rightarrow> ('a request_scheme \<Rightarrow> 'k) \<Rightarrow> 'k" where
  "validateToken jwt request response next =
     (case validarToken jwt (authorization request) of
        (autorizado, payload) \<Rightarrow>
          if autorizado = JBool True
          then
            (let obj = [(''email'', get_prop payload ''email''),
                        (''role'', get_prop payload ''role''),
                        (''name'', get_prop payload ''name'')]
             in next (request\<lparr>authorization := JStr (gerarToken jwt obj)\<rparr>))
          else response 401 [(''status'', JBool False), (''msg'', JStr ''token invalido'')])"

section \<open>FuncionarioControl (api/control/FuncionarioControl.js)\<close>

text \<open>
  A controller awaits the service inside \<^verbatim>\<open>try\<close>. On success it answers with status 200
  and its message; what it catches goes with \<^verbatim>\<open>next(error)\<close> to the error responder.
\<close>

definition FuncionarioControl_login ::
  "'s runtime \<Rightarrow> MeuTokenJWT \<Rightarrow> requestBody \<Rightarrow> 's mysql \<Rightarrow> response \<times> 's mysql" where
  "FuncionarioControl_login rt jwt body db =
     (case (case body_funcionario body of
              None \<Rightarrow> throw (TypeError ''Cannot read properties of undefined (reading email)'')
            | Some jsonFuncionario \<Rightarrow> loginFuncionario rt jwt jsonFuncionario) db of
        (Inr resultado, db') \<Rightarrow>
          (\<lparr>status = 200, message = ''Login efetuado com sucesso!'', detail = []\<rparr>, db')
      | (Inl error, db') \<Rightarrow> (errorHandler error, db'))"

definition FuncionarioControl_store ::
  "'s runtime \<Rightarrow> requestBody \<Rightarrow> 's mysql \<Rightarrow> response \<times> 's mysql" where
  "FuncionarioControl_store rt body db =
     (case (case body_funcionario body of
              None \<Rightarrow> throw (TypeError ''Cannot read properties of undefined (reading cargo)'')
            | Some jsonFuncionario \<Rightarrow> createFuncionario rt jsonFuncionario) db of
        (Inr resultado, db') \<Rightarrow>
          (\<lparr>status = 200, message = ''Cadastro realizado com sucesso'', detail = []\<rparr>, db')
      | (Inl error, db') \<Rightarrow> (errorHandler error, db'))"

section \<open>FuncionarioMiddleware (unnamed/part_002, validateCreateBody)\<close>

text \<open>\<^verbatim>\<open>funcionario[campo] === undefined || funcionario[campo] === null || funcionario[campo] === ""\<close>\<close>

definition campo_vazio :: "jsval \<Rightarrow> bool" where
  "campo_vazio v = (v = JUndefined \<or> v = JNull \<or> v = JStr [])"

definition erro_validacao :: "string \<Rightarrow> js_error" where
  "erro_validacao msg = ErrorResponse 400 ''Erro na validacao de dados'' msg"

text \<open>
  The middleware throws an ErrorResponse 400 or calls \<^verbatim>\<open>next()\<close> (\<open>Inr ()\<close>).
  \<^verbatim>\<open>Number.isInteger\<close> holds of integral numbers only, without conversion.
\<close>

definition validateCreateBody :: "requestBody \<Rightarrow> js_error + unit" where
  "validateCreateBody b =
     (case body_funcionario b of
        None \<Rightarrow> Inl (erro_validacao ''O campo funcionario e obrigatorio!'')
      | Some funcionario \<Rightarrow>
          if campo_vazio (json_nomeFuncionario funcionario)
            then Inl (erro_validacao ''O campo nomeFuncionario e obrigatorio!'')
          else if campo_vazio (json_email funcionario)
            then Inl (erro_validacao ''O campo email e obrigatorio!'')
          else if campo_vazio (json_senha funcionario)
            then Inl (erro_validacao ''O campo senha e obrigatorio!'')
          else if campo_vazio (json_recebeValeTransporte funcionario)
            then Inl (erro_validacao ''O campo recebeValeTransporte e obrigatorio!'')
          else if json_recebeValeTransporte funcionario \<noteq> JNum (Integral 0) \<and>
                  json_recebeValeTransporte funcionario \<noteq> JNum (Integral 1)
            then Inl (erro_validacao ''O campo recebeValeTransporte deve ser 0 ou 1'')
          else
            (case json_cargo funcionario of
               None \<Rightarrow> Inl (erro_validacao ''O campo cargo e obrigatorio e deve ser um objeto'')
             | Some c \<Rightarrow>
                 (case json_idCargo c of
                    JNum (Integral n) \<Rightarrow>
                      if n \<le> 0
                      then Inl (erro_validacao ''O campo idCargo deve ser um numero inteiro positivo'')
                      else Inr ()
                  | _ \<Rightarrow> Inl (erro_validacao ''O campo idCargo deve ser um numero inteiro positivo''))))"

section \<open>The route POST /funcionarios (api/routes/FuncionarioRouter.js)\<close>

text \<open>
  A request with its body. The route runs \<open>validateToken\<close>, \<open>validateCreateBody\<close>
  and the controller's \<open>store\<close>, each one when the one before it calls \<open>next\<close>; what
  a middleware throws goes to the error responder. \<open>send_reply c b\<close> is the answer
  \<^verbatim>\<open>response.status(c).send(b)\<close>, with \<^verbatim>\<open>b.msg\<close> as its message.
\<close>

record api_request = request +
  req_body :: requestBody

definition send_reply :: "nat \<Rightarrow> jsobject \<Rightarrow> response" where
  "send_reply c b =
     \<lparr>status = c, message = (case get_prop b ''msg'' of JStr m \<Rightarrow> m | _ \<Rightarrow> []), detail = []\<rparr>"

definition store_handlers :: "'s runtime \<Rightarrow> 's mysql \<Rightarrow> api_request \<Rightarrow> response \<times> 's mysql" where
  "store_handlers rt db r =
     (case validateCreateBody (req_body r) of
        Inl error \<Rightarrow> (errorHandler error, db)
      | Inr u \<Rightarrow> FuncionarioControl_store rt (req_body r) db)"

definition route_store ::
  "MeuTokenJWT \<Rightarrow> 's runtime \<Rightarrow> api_request \<Rightarrow> 's mysql \<Rightarrow> response \<times> 's mysql" where
  "route_store jwt rt r db =
     validateToken jwt r (\<lambda>c b. (send_reply c b, db)) (store_handlers rt db)"

section \<open>A reference runtime\<close>

text \<open>
  One instance of the collaborators, on which the functions above can be run: a store
  with the two tables of docs/Banco.sql (auto-increment keys, the unique index on
  \<open>nomeCargo\<close>, the foreign key from \<open>Cargo_idCargo\<close> to \<open>idCargo\<close>), a
  digest function in place of bcrypt, and a conversion of digit strings.
\<close>

record ref_store =
  cargo_table :: "jsobject list"
  funcionario_table :: "jsobject list"
  cargo_seq :: nat
  funcionario_seq :: nat

definition ref_select :: "jsobject list \<Rightarrow> string \<Rightarrow> jsval \<Rightarrow> jsobject list" where
  "ref_select table field v = filter (\<lambda>row. get_prop row field = v) table"

definition ref_funcionario_row :: "jsval \<Rightarrow> jsval list \<Rightarrow> jsobject" where
  "ref_funcionario_row i ps =
     zip [''idFuncionario'', ''nomeFuncionario'', ''email'', ''senha'', ''recebeValeTransporte'',
          ''Cargo_idCargo''] (i # ps)"

definition ref_join :: "ref_store \<Rightarrow> jsobject \<Rightarrow> jsobject list" where
  "ref_join s f =
     map (\<lambda>c. filter (\<lambda>(k, v). k \<noteq> ''Cargo_idCargo'') f @ c)
       (ref_select (cargo_table s) ''idCargo'' (get_prop f ''Cargo_idCargo''))"

definition ref_fk_error :: string where
  "ref_fk_error = ''Cannot add or update a child row: a foreign key constraint fails''"

definition ref_execute :: "string \<Rightarrow> jsval list \<Rightarrow> ref_store \<Rightarrow> (string + driver_result) \<times> ref_store" where
  "ref_execute SQL params s =
     (if SQL = ''INSERT INTO cargo (nomeCargo) VALUES (?);'' then
        (case params of
           [n] \<Rightarrow>
             if ref_select (cargo_table s) ''nomeCargo'' n \<noteq> []
             then (Inl ''Duplicate entry for key nomeCargo_UNIQUE'', s)
             else (Inr (ResultSetHeader (cargo_seq s) 1),
                   s\<lparr>cargo_table := cargo_table s @
                        [[(''idCargo'', JNum (Integral (int (cargo_seq s)))), (''nomeCargo'', n)]],
                     cargo_seq := Suc (cargo_seq s)\<rparr>)
         | _ \<Rightarrow> (Inl ''Incorrect arguments to mysqld_stmt_execute'', s))
      else if SQL = SQL_insert_funcionario then
        (case params of
           [n, e, p, r, c] \<Rightarrow>
             if ref_select (cargo_table s) ''idCargo'' c = [] then (Inl ref_fk_error, s)
             else (Inr (ResultSetHeader (funcionario_seq s) 1),
                   s\<lparr>funcionario_table := funcionario_table s @
                        [ref_funcionario_row (JNum (Integral (int (funcionario_seq s)))) params],
                     funcionario_seq := Suc (funcionario_seq s)\<rparr>)
         | _ \<Rightarrow> (Inl ''Incorrect arguments to mysqld_stmt_execute'', s))
      else if SQL = SQL_update_com_senha then
        (case params of
           [n, e, p, r, c, i] \<Rightarrow>
             if ref_select (cargo_table s) ''idCargo'' c = [] then (Inl ref_fk_error, s)
             else (Inr (ResultSetHeader 0 (length (ref_select (funcionario_table s) ''idFuncionario'' i))),
                   s\<lparr>funcionario_table :=
                        map (\<lambda>row. if get_prop row ''idFuncionario'' = i
                                    then ref_funcionario_row i [n, e, p, r, c] else row)
                          (funcionario_table s)\<rparr>)
         | _ \<Rightarrow> (Inl ''Incorrect arguments to mysqld_stmt_execute'', s))
      else if SQL = SQL_update_sem_senha then
        (case params of
           [n, e, r, c, i] \<Rightarrow>
             if ref_select (cargo_table s) ''idCargo'' c = [] then (Inl ref_fk_error, s)
             else (Inr (ResultSetHeader 0 (length (ref_select (funcionario_table s) ''idFuncionario'' i))),
                   s\<lparr>funcionario_table :=
                        map (\<lambda>row. if get_prop row ''idFuncionario'' = i
                                    then ref_funcionario_row i [n, e, get_prop row ''senha'', r, c] else row)
                          (funcionario_table s)\<rparr>)
         | _ \<Rightarrow> (Inl ''Incorrect arguments to mysqld_stmt_execute'', s))
      else if SQL = ''DELETE FROM funcionario WHERE idFuncionario = ?;'' then
        (case params of
           [i] \<Rightarrow>
             (Inr (ResultSetHeader 0 (length (ref_select (funcionario_table s) ''idFuncionario'' i))),
              s\<lparr>funcionario_table :=
                   filter (\<lambda>row. get_prop row ''idFuncionario'' \<noteq> i) (funcionario_table s)\<rparr>)
         | _ \<Rightarrow> (Inl ''Incorrect arguments to mysqld_stmt_execute'', s))
      else if SQL = SQL_login then
        (case params of
           [e] \<Rightarrow> (Inr (Rows (concat (map (ref_join s) (ref_select (funcionario_table s) ''email'' e)))), s)
         | _ \<Rightarrow> (Inl ''Incorrect arguments to mysqld_stmt_execute'', s))
      else
        (case (find (\<lambda>f. SQL = ''SELECT * FROM cargo WHERE '' @ f @ '' = ?;'') CargoDAO_allowedFields,
               find (\<lambda>f. SQL = ''SELECT * FROM funcionario WHERE '' @ f @ '' = ?;'') FuncionarioDAO_allowedFields,
               params) of
           (Some f, _, [v]) \<Rightarrow> (Inr (Rows (ref_select (cargo_table s) f v)), s)
         | (None, Some f, [v]) \<Rightarrow> (Inr (Rows (ref_select (funcionario_table s) f v)), s)
         | _ \<Rightarrow> (Inl ''You have an error in your SQL syntax'', s)))"

text \<open>The number a string of decimal digits denotes; every other string is taken as
  not a number here.\<close>

definition ref_str2num :: "string \<Rightarrow> jsnum" where
  "ref_str2num s =
     (if s \<noteq> [] \<and> list_all is_digit s
      then Integral (foldl (\<lambda>a c. 10 * a + (int (of_char c) - 48)) 0 s)
      else NonIntegral)"

definition ref_digest :: "string \<Rightarrow> string" where
  "ref_digest p = ''$2b$12$H.'' @ rev p @ ''.''"

definition ref_runtime :: "ref_store runtime" where
  "ref_runtime =
     \<lparr>StringToNumber = ref_str2num,
      parseInt = (\<lambda>v. case v of JNum n \<Rightarrow> n | JStr s \<Rightarrow> ref_str2num s | _ \<Rightarrow> NonIntegral),
      bcrypt_hash = (\<lambda>v rounds. case v of JStr p \<Rightarrow> Inr (ref_digest p)
                                  | _ \<Rightarrow> Inl ''data and salt arguments required''),
      bcrypt_compare = (\<lambda>v h. case (v, h) of (JStr p, JStr d) \<Rightarrow> Inr (d = ref_digest p)
                                | _ \<Rightarrow> Inl ''data and hash arguments required''),
      pool_execute = ref_execute\<rparr>"

text \<open>A token service that accepts the one header \<^verbatim>\<open>Bearer t1\<close>.\<close>

definition ref_jwt :: MeuTokenJWT where
  "ref_jwt =
     \<lparr>gerarToken = (\<lambda>obj. ''t2''),
      validarToken = (\<lambda>h. if h = JStr ''Bearer t1''
                           then (JBool True, [(''email'', JStr ''john@x.com''), (''role'', JStr ''Developer''),
                                              (''name'', JStr ''John Smith'')])
                           else (JBool False, []))\<rparr>"

text \<open>A database with the one role \<open>Developer\<close> (id 1) and no employee.\<close>

definition db0 :: "ref_store mysql" where
  "db0 =
     \<lparr>store = \<lparr>cargo_table = [[(''idCargo'', JNum (Integral 1)), (''nomeCargo'', JStr ''Developer'')]],
               funcionario_table = [], cargo_seq = 2, funcionario_seq = 1\<rparr>,
      executed = []\<rparr>"

definition john :: "jsval \<Rightarrow> FuncionarioJson" where
  "john roleId =
     \<lparr>json_nomeFuncionario = JStr ''John Smith'', json_email = JStr ''john@x.com'',
      json_senha = JStr ''Pass@123'', json_recebeValeTransporte = JNum (Integral 1),
      json_cargo = Some \<lparr>json_idCargo = roleId, json_nomeCargo = JUndefined\<rparr>\<rparr>"

text \<open>The same database after John Smith has been created with role 1, and after the
  role \<open>Tester\<close> has been created.\<close>

definition db1 :: "ref_store mysql" where
  "db1 = snd (createFuncionario ref_runtime (john (JNum (Integral 1))) db0)"

definition tester :: CargoJson where
  "tester = \<lparr>json_idCargo = JUndefined, json_nomeCargo = JStr ''Tester''\<rparr>"

definition db2 :: "ref_store mysql" where
  "db2 = snd (createCargo ref_runtime tester db0)"

definition developer :: CargoJson where
  "developer = \<lparr>json_idCargo = JUndefined, json_nomeCargo = JStr ''Developer''\<rparr>"

text \<open>The body of a login request.\<close>

definition credentials :: "string \<Rightarrow> string \<Rightarrow> FuncionarioJson" where
  "credentials e p =
     \<lparr>json_nomeFuncionario = JUndefined, json_email = JStr e, json_senha = JStr p,
      json_recebeValeTransporte = JUndefined, json_cargo = None\<rparr>"

text \<open>The value object of John Smith before it is persisted.\<close>

definition john_obj :: Funcionario where
  "john_obj =
     \<lparr>idFuncionario = Some 1, cargo = Some \<lparr>idCargo = Some 1, nomeCargo = None\<rparr>,
      nomeFuncionario = Some ''John Smith'', email = Some ''john@x.com'',
      senha = Some ''Pass@123'', recebeValeTransporte = Some 1\<rparr>"

section \<open>A token service with a clock\<close>

text \<open>The decimal digits of a number that is not negative.\<close>

function decimal :: "int \<Rightarrow> string" where
  "decimal n =
     (if n < 10 then [char_of (48 + n)] else decimal (n div 10) @ [char_of (48 + n mod 10)])"
  by pat_completeness auto
termination
  by (relation "measure nat") auto

definition session_ttl :: int where
  "session_ttl = 3600"

text \<open>
  Modelled from the spec: the token service MeuTokenJWT, whose source
  api/http/MeuTokenJWT.js is missing. By section 4.1 of the specification, a token that
  is issued expires a fixed window after the moment of issue (one hour here), and
  validation accepts a header of the shape \<^verbatim>\<open>Bearer <token>\<close> whose token has not
  expired, and fails, without throwing, on an absent or malformed header and on an expired
  token. \<open>spec_jwt now\<close> is the service at the time \<open>now\<close>, in seconds. A token is
  written as the decimal digits of its time of expiry; the signature is not modelled, and
  the claims are those of John Smith.
\<close>

definition spec_jwt :: "int \<Rightarrow> MeuTokenJWT" where
  "spec_jwt now =
     \<lparr>gerarToken = (\<lambda>obj. decimal (now + session_ttl)),
      validarToken =
        (\<lambda>h. case h of
           JStr s \<Rightarrow>
             (case ref_str2num (drop 7 s) of
                Integral expiry \<Rightarrow>
                  if take 7 s = ''Bearer '' \<and> now < expiry
                  then (JBool True, [(''email'', JStr ''john@x.com''), (''role'', JStr ''Developer''),
                                     (''name'', JStr ''John Smith'')])
                  else (JBool False, [])
              | NonIntegral \<Rightarrow> (JBool False, []))
         | _ \<Rightarrow> (JBool False, []))\<rparr>"

text \<open>A creation request of John Smith with an authorization header.\<close>

definition john_request :: "jsval \<Rightarrow> api_request" where
  "john_request h =
     \<lparr>authorization = h, req_body = \<lparr>body_funcionario = Some (john (JNum (Integral 1)))\<rparr>\<rparr>"

section \<open>The invariants in the words of the specification\<close>

text \<open>A password has at least 6 characters, a digit, an uppercase letter and a symbol of
  the special-character set.\<close>

definition password_policy :: "string \<Rightarrow> bool" where
  "password_policy s =
     (6 \<le> length s \<and> (\<exists>c\<in>set s. is_digit c) \<and> (\<exists>c\<in>set s. is_upper c) \<and>
      (\<exists>c\<in>set s. c \<in> set special_chars))"

text \<open>An id is a positive integer; a role name is a string of trimmed length 3 to 64; an
  employee name is a string of trimmed length at least 3; an email is a string of the
  shape local@domain.tld; the commute flag is 0 or 1.\<close>

definition positive_integer :: "(string \<Rightarrow> jsnum) \<Rightarrow> jsval \<Rightarrow> bool" where
  "positive_integer str2num v =
     (case Number_js str2num v of Integral n \<Rightarrow> 0 < n | NonIntegral \<Rightarrow> False)"

definition valid_nomeCargo :: "jsval \<Rightarrow> bool" where
  "valid_nomeCargo v =
     (case v of JStr s \<Rightarrow> 3 \<le> length (trim s) \<and> length (trim s) \<le> 64 | _ \<Rightarrow> False)"

definition valid_nomeFuncionario :: "jsval \<Rightarrow> bool" where
  "valid_nomeFuncionario v = (case v of JStr s \<Rightarrow> 3 \<le> length (trim s) | _ \<Rightarrow> False)"

definition valid_email :: "jsval \<Rightarrow> bool" where
  "valid_email v = (case v of JStr s \<Rightarrow> test_anchored emailRegex (trim s) | _ \<Rightarrow> False)"

definition valid_senha :: "jsval \<Rightarrow> bool" where
  "valid_senha v = (case v of JStr s \<Rightarrow> password_policy (trim s) | _ \<Rightarrow> False)"

definition valid_commute_flag :: "jsval \<Rightarrow> bool" where
  "valid_commute_flag v = (v = JNum (Integral 0) \<or> v = JNum (Integral 1))"

text \<open>An error that is not an ErrorResponse.\<close>

definition is_plain :: "js_error \<Rightarrow> bool" where
  "is_plain e = (case e of ErrorResponse c m d \<Rightarrow> False | _ \<Rightarrow> True)"

section \<open>Basic facts\<close>

lemma bind_io_sync_Inr [simp]: "bind_io (sync (Inr x)) g db = g x db"
  by (simp add: bind_io_def sync_def)

lemma bind_io_sync_Inl [simp]: "bind_io (sync (Inl e)) g db = (Inl e, db)"
  by (simp add: bind_io_def sync_def)

lemma execute_Inr:
  "pool_execute rt SQL ps (store db) = (Inr res, s') \<Longrightarrow>
   execute rt SQL ps db = (Inr res, \<lparr>store = s', executed = executed db @ [(SQL, ps)]\<rparr>)"
  by (simp add: execute_def)

lemma execute_executed:
  "executed (snd (execute rt SQL ps db)) = executed db @ [(SQL, ps)]"
  by (simp add: execute_def split: prod.splits)

lemma set_senha_accepts_iff:
  "(\<exists>f'. Funcionario_set_senha v f = Inr f') \<longleftrightarrow> (\<exists>pw. v = JStr pw \<and> password_policy (trim pw))"
  by (cases v) (auto simp: Funcionario_set_senha_def password_policy_def test_class_def
      list_ex_iff is_special_def Let_def)

lemma set_senha_result:
  "Funcionario_set_senha v f = Inr f' \<Longrightarrow> \<exists>pw. v = JStr pw \<and> password_policy (trim pw) \<and> f' = f\<lparr>senha := Some (trim pw)\<rparr>"
  by (cases v) (auto simp: Funcionario_set_senha_def password_policy_def test_class_def
      list_ex_iff is_special_def Let_def split: if_splits)

lemma bind_sum_Inr: "bind_sum r g = Inr y \<longleftrightarrow> (\<exists>x. r = Inr x \<and> g x = Inr y)"
  by (cases r) (auto simp: bind_sum_def)

lemma bind_io_Inr:
  "bind_io m g db = (Inr y, db') \<longleftrightarrow> (\<exists>x db1. m db = (Inr x, db1) \<and> g x db1 = (Inr y, db'))"
  by (auto simp: bind_io_def split: prod.splits sum.splits)

lemma sync_eq: "sync r db = (r', db') \<longleftrightarrow> (r = r' \<and> db' = db)"
  by (auto simp: sync_def)

lemma create_assign_senha:
  "create_assign j c = Inr f \<Longrightarrow> \<exists>pw. json_senha j = JStr pw \<and> password_policy (trim pw)"
  unfolding create_assign_def bind_sum_Inr
  using set_senha_result by blast

lemma createFuncionario_assigned:
  "createFuncionario rt j db = (Inr r, db') \<Longrightarrow> \<exists>c f. create_assign j c = Inr f"
  unfolding createFuncionario_def
  by (auto simp: bind_io_Inr sync_eq throw_def split: option.splits)

lemma snd_bind_io_pure:
  "(\<And>x d. snd (g x d) = d) \<Longrightarrow> snd (bind_io m g db) = snd (m db)"
  by (simp add: bind_io_def split: prod.splits sum.splits)

lemma snd_insert_tail:
  "snd ((case insertId resultado of
           None \<Rightarrow> throw (Error msg)
         | Some i \<Rightarrow> if i = 0 then throw (Error msg) else return_io (k i)) d) = d"
  by (simp add: throw_def return_io_def split: option.splits)

lemma snd_return_io: "snd (return_io x d) = d"
  by (simp add: return_io_def)

lemma unawaited_findByField:
  "unawaited (CargoDAO_findByField rt ''idCargo'' v) db =
     (Inr (Promise (fst (execute rt ''SELECT * FROM cargo WHERE idCargo = ?;'' [v] db))),
      \<lparr>store = snd (pool_execute rt ''SELECT * FROM cargo WHERE idCargo = ?;'' [v] (store db)),
       executed = executed db @ [(''SELECT * FROM cargo WHERE idCargo = ?;'', [v])]\<rparr>)"
  by (simp add: unawaited_def CargoDAO_findByField_def CargoDAO_allowedFields_def execute_def
      split: prod.splits)

lemma role_check_never_fires [simp]:
  "loose_eq_int str2num (promise_length p) 0 = False"
  by (simp add: loose_eq_int_def promise_length_def)

lemma set_rvt_result:
  "Funcionario_set_recebeValeTransporte v f = Inr f' \<Longrightarrow> \<exists>n. f' = f\<lparr>recebeValeTransporte := Some n\<rparr>"
  by (auto simp: Funcionario_set_recebeValeTransporte_def split: jsval.splits jsnum.splits if_splits)

lemma set_cargo_Inr: "Funcionario_set_cargo (Inr c) f = Inr (f\<lparr>cargo := Some c\<rparr>)"
  by (simp add: Funcionario_set_cargo_def)

lemma update_assign_result:
  assumes "update_assign str2num i j c = Inr f"
  shows "\<exists>pw. json_senha j = JStr pw \<and> password_policy (trim pw) \<and> senha f = Some (trim pw) \<and>
              cargo f = Some c"
proof -
  from assms obtain f3 f4 pw f2 where "json_senha j = JStr pw" "password_policy (trim pw)"
    "f3 = f2\<lparr>senha := Some (trim pw)\<rparr>"
    "Funcionario_set_recebeValeTransporte (json_recebeValeTransporte j) f3 = Inr f4"
    "f = f4\<lparr>cargo := Some c\<rparr>"
    unfolding update_assign_def bind_sum_Inr set_cargo_Inr
    using set_senha_result by blast
  then show ?thesis
    using set_rvt_result by fastforce
qed

lemma policy_nonempty: "password_policy s \<Longrightarrow> s \<noteq> []"
  by (auto simp: password_policy_def)

lemma set_undefined [simp]:
  "Funcionario_set_nomeFuncionario JUndefined f = Inl (Error ''nomeFuncionario deve ser uma string.'')"
  "Funcionario_set_email JUndefined f = Inl (Error ''email deve ser uma string.'')"
  "Funcionario_set_senha JUndefined f = Inl (Error ''senha deve ser uma string.'')"
  "Funcionario_set_recebeValeTransporte JUndefined f = Inl (Error ''recebeValeTransporte deve ser 0 ou 1.'')"
  "Cargo_set_idCargo str2num JUndefined c = Inl (Error ''idCargo deve ser um numero inteiro.'')"
  by (simp_all add: Funcionario_set_nomeFuncionario_def Funcionario_set_email_def
      Funcionario_set_senha_def Funcionario_set_recebeValeTransporte_def Cargo_set_idCargo_def
      Number_js_def)

lemma update_assign_supplied:
  assumes "update_assign str2num i j c = Inr f"
  shows "json_nomeFuncionario j \<noteq> JUndefined \<and> json_email j \<noteq> JUndefined \<and>
         json_senha j \<noteq> JUndefined \<and> json_recebeValeTransporte j \<noteq> JUndefined"
  using assms unfolding update_assign_def bind_sum_Inr
  by auto

lemma update_assign_omitted:
  assumes "json_nomeFuncionario j = JUndefined \<or> json_email j = JUndefined \<or>
           json_senha j = JUndefined \<or> json_recebeValeTransporte j = JUndefined"
  shows "\<exists>e. update_assign str2num i j c = Inl e"
proof (cases "update_assign str2num i j c")
  case (Inl e)
  then show ?thesis by blast
next
  case (Inr f)
  from update_assign_supplied [OF this] assms show ?thesis by blast
qed

lemma ref_digest_trimmed: "\<forall>v d. bcrypt_hash ref_runtime v 12 = Inr d \<longrightarrow> trim d = d"
proof (intro allI impI)
  fix v d assume "bcrypt_hash ref_runtime v 12 = Inr d"
  then obtain p where "d = ''$2b$12$H.'' @ rev p @ ''.''"
    by (cases v) (auto simp: ref_runtime_def ref_digest_def)
  then show "trim d = d"
    by (simp add: trim_def is_space_def)
qed

lemma is_plain_simps [simp]:
  "is_plain (Error m)" "is_plain (TypeError m)" "\<not> is_plain (ErrorResponse c m d)"
  by (simp_all add: is_plain_def)

lemma bind_io_Inl_cases:
  assumes "bind_io m g db = (Inl e, db')"
  obtains db1 where "m db = (Inl e, db1)"
  | x db1 where "m db = (Inr x, db1)" "g x db1 = (Inl e, db')"
  using assms by (auto simp: bind_io_def split: prod.splits sum.splits)

lemma bind_sum_Inl_cases:
  assumes "bind_sum r g = Inl e"
  obtains "r = Inl e" | x where "r = Inr x" "g x = Inl e"
  using assms by (cases r) (auto simp: bind_sum_def)

lemma setters_plain:
  "Cargo_set_idCargo s v c = Inl e \<Longrightarrow> is_plain e"
  "Cargo_set_nomeCargo v c = Inl e \<Longrightarrow> is_plain e"
  "Funcionario_set_idFuncionario s v f = Inl e \<Longrightarrow> is_plain e"
  "Funcionario_set_nomeFuncionario v f = Inl e \<Longrightarrow> is_plain e"
  "Funcionario_set_email v f = Inl e \<Longrightarrow> is_plain e"
  "Funcionario_set_senha v f = Inl e \<Longrightarrow> is_plain e"
  "Funcionario_set_recebeValeTransporte v f = Inl e \<Longrightarrow> is_plain e"
  "Funcionario_set_cargo w f = Inl e \<Longrightarrow> is_plain e"
  by (auto simp: Cargo_set_idCargo_def Cargo_set_nomeCargo_def Funcionario_set_idFuncionario_def
      Funcionario_set_nomeFuncionario_def Funcionario_set_email_def Funcionario_set_senha_def
      Funcionario_set_recebeValeTransporte_def Funcionario_set_cargo_def Let_def
      split: jsval.splits jsnum.splits if_splits sum.splits)

lemma create_assign_plain: "create_assign j c = Inl e \<Longrightarrow> is_plain e"
  unfolding create_assign_def
  by (auto elim!: bind_sum_Inl_cases dest: setters_plain)

lemma execute_plain: "execute rt SQL ps db = (Inl e, db') \<Longrightarrow> is_plain e"
  by (auto simp: execute_def split: prod.splits sum.splits)

lemma FuncionarioDAO_create_plain: "FuncionarioDAO_create rt f db = (Inl e, db') \<Longrightarrow> is_plain e"
  unfolding FuncionarioDAO_create_def
  by (auto elim!: bind_io_Inl_cases dest: setters_plain execute_plain
      simp: sync_def bcrypt_hash_io_def cargo_idCargo_def throw_def return_io_def
      split: sum.splits option.splits if_splits)

lemma createFuncionario_errors:
  assumes "createFuncionario rt j db = (Inl e, db')"
  shows "is_plain e \<or>
         (\<exists>d. e = ErrorResponse 400 ''Ja existe um Funcionario com o email fornecido'' d)"
  using assms unfolding createFuncionario_def
  by (auto elim!: bind_io_Inl_cases
      dest: setters_plain create_assign_plain execute_plain FuncionarioDAO_create_plain
      simp: sync_def throw_def unawaited_def FuncionarioDAO_findByField_def
      split: option.splits if_splits prod.splits)

section \<open>The claims\<close>

text \<open>
  Claim C1. A creation payload whose \<open>cargo.idCargo\<close> matches no Role should fail with
  the 400 error "O cargo informado nao existe" before any persistence call. The code does
  not do this. With the one role 1 in the store and a payload that names role 999,
  \<open>createFuncionario\<close> issues the role lookup, the email lookup and the INSERT, and what
  it returns is the plain Error of the store's foreign key, which the controller and the
  responder answer with status 500. For every runtime, payload and database the error
  "O cargo informado nao existe" is never the result: the role lookup is not awaited, the
  \<open>length\<close> of the promise is undefined, and \<open>undefined == 0\<close> is false.
\<close>

theorem createFuncionario_missing_role:
  "ref_select (cargo_table (store db0)) ''idCargo'' (JNum (Integral 999)) = [] \<and>
   createFuncionario ref_runtime (john (JNum (Integral 999))) db0 =
     (Inl (Error ref_fk_error),
      db0\<lparr>executed :=
            [(''SELECT * FROM cargo WHERE idCargo = ?;'', [JNum (Integral 999)]),
             (''SELECT * FROM funcionario WHERE email = ?;'', [JStr ''john@x.com'']),
             (SQL_insert_funcionario,
              [JStr ''John Smith'', JStr ''john@x.com'', JStr ''$2b$12$H.321@ssaP.'',
               JNum (Integral 1), JNum (Integral 999)])]\<rparr>) \<and>
   fst (FuncionarioControl_store ref_runtime
          \<lparr>body_funcionario = Some (john (JNum (Integral 999)))\<rparr> db0) =
     \<lparr>status = 500, message = ''Ocorreu um erro interno no servidor'', detail = ref_fk_error\<rparr> \<and>
   fst (createFuncionario rt j db) \<noteq> Inl (ErrorResponse c ''O cargo informado nao existe'' d)"
proof (intro conjI)
  show "ref_select (cargo_table (store db0)) ''idCargo'' (JNum (Integral 999)) = []"
    by code_simp
next
  show "createFuncionario ref_runtime (john (JNum (Integral 999))) db0 =
     (Inl (Error ref_fk_error),
      db0\<lparr>executed :=
            [(''SELECT * FROM cargo WHERE idCargo = ?;'', [JNum (Integral 999)]),
             (''SELECT * FROM funcionario WHERE email = ?;'', [JStr ''john@x.com'']),
             (SQL_insert_funcionario,
              [JStr ''John Smith'', JStr ''john@x.com'', JStr ''$2b$12$H.321@ssaP.'',
               JNum (Integral 1), JNum (Integral 999)])]\<rparr>)"
    by code_simp
next
  show "fst (FuncionarioControl_store ref_runtime
          \<lparr>body_funcionario = Some (john (JNum (Integral 999)))\<rparr> db0) =
     \<lparr>status = 500, message = ''Ocorreu um erro interno no servidor'', detail = ref_fk_error\<rparr>"
    by code_simp
next
  show "fst (createFuncionario rt j db) \<noteq> Inl (ErrorResponse c ''O cargo informado nao existe'' d)"
  proof
    assume "fst (createFuncionario rt j db) = Inl (ErrorResponse c ''O cargo informado nao existe'' d)"
    then obtain db' where "createFuncionario rt j db =
        (Inl (ErrorResponse c ''O cargo informado nao existe'' d), db')"
      by (cases "createFuncionario rt j db") auto
    from createFuncionario_errors [OF this] show False
      by simp
  qed
qed

text \<open>
  Claim C2. Whenever the token service does not return \<open>true\<close> for the authorization
  header of a request (the header is absent, malformed, expired, or fails validation in
  any other way), the JWT middleware answers with status 401 and the body
  \<open>{status: false, msg: "token invalido"}\<close>, whatever the handler that follows in the
  route is: \<open>next\<close> is not called.
\<close>

theorem validateToken_rejects:
  "fst (validarToken jwt (authorization request)) \<noteq> JBool True \<Longrightarrow>
   validateToken jwt request response next =
     response 401 [(''status'', JBool False), (''msg'', JStr ''token invalido'')]"
  by (cases "validarToken jwt (authorization request)") (simp add: validateToken_def)

text \<open>With no authorization header the answer is 401, although the handler that follows
  would answer 200.\<close>

theorem validateToken_rejects_witness:
  "fst (validarToken ref_jwt (authorization \<lparr>authorization = JUndefined\<rparr>)) \<noteq> JBool True \<and>
   validateToken ref_jwt \<lparr>authorization = JUndefined\<rparr> (\<lambda>c b. (c, b)) (\<lambda>r. (200, [])) =
     (401, [(''status'', JBool False), (''msg'', JStr ''token invalido'')])"
proof -
  have h: "fst (validarToken ref_jwt (authorization \<lparr>authorization = JUndefined\<rparr>)) \<noteq> JBool True"
    by (simp add: ref_jwt_def)
  from validateToken_rejects [OF h] h show ?thesis by simp
qed

text \<open>
  Claim C3, as amended. Whenever the token service returns \<open>true\<close> and leaves a
  payload, the middleware issues a new token from the payload's \<open>email\<close>, \<open>role\<close>
  and \<open>name\<close>, puts it in the authorization header of the request, and calls \<open>next\<close>
  on the request so changed. The new token goes to the handler that follows and nowhere
  else: a handler whose answer does not depend on the authorization header answers as it
  does on the request as it came, whatever token was issued.
\<close>

theorem validateToken_reissues:
  "validarToken jwt (authorization request) = (JBool True, payload) \<Longrightarrow>
   validateToken jwt request response next =
     next (request\<lparr>authorization :=
             JStr (gerarToken jwt [(''email'', get_prop payload ''email''),
                                   (''role'', get_prop payload ''role''),
                                   (''name'', get_prop payload ''name'')])\<rparr>) \<and>
   ((\<forall>r a. handler (r\<lparr>authorization := a\<rparr>) = handler r) \<longrightarrow>
      validateToken jwt request response handler = handler request)"
  by (simp add: validateToken_def Let_def)

text \<open>
  The claim as it was stated, that each authenticated request extends the session
  window, fails. A client holds the token of a login at time 0, which expires at 3600.
  Its creation request at 1800 passes the middleware, which issues a token that would
  expire at 5400 and puts it in the request header; the answer to the client is that of
  the controller and carries no token. At 3700, inside the hour that follows the request
  at 1800, the token the client holds is refused.
\<close>

theorem session_window_counterexample:
  "gerarToken (spec_jwt 0) [] = ''3600'' \<and>
   route_store (spec_jwt 1800) ref_runtime (john_request (JStr ''Bearer 3600'')) db0 =
     (\<lparr>status = 200, message = ''Cadastro realizado com sucesso'', detail = []\<rparr>, db1) \<and>
   gerarToken (spec_jwt 1800)
     [(''email'', JStr ''john@x.com''), (''role'', JStr ''Developer''), (''name'', JStr ''John Smith'')] =
     ''5400'' \<and>
   route_store (spec_jwt 3700) ref_runtime (john_request (JStr ''Bearer 3600'')) db1 =
     (\<lparr>status = 401, message = ''token invalido'', detail = []\<rparr>, db1)"
  by code_simp

text \<open>The handler that follows sees the new token \<open>t2\<close> in place of the header it was
  sent; the route of the creation request answers as its handlers do on the request as it
  came.\<close>

theorem validateToken_reissues_witness:
  "validateToken ref_jwt \<lparr>authorization = JStr ''Bearer t1''\<rparr> (\<lambda>c b. (c, b))
     (\<lambda>r. (200, [(''authorization'', authorization r)])) =
   (200, [(''authorization'', JStr ''t2'')]) \<and>
   route_store ref_jwt ref_runtime (john_request (JStr ''Bearer t1'')) db0 =
     store_handlers ref_runtime db0 (john_request (JStr ''Bearer t1'')) \<and>
   route_store ref_jwt ref_runtime (john_request (JStr ''Bearer t1'')) db0 =
     (\<lparr>status = 200, message = ''Cadastro realizado com sucesso'', detail = []\<rparr>, db1)"
proof -
  have h: "validarToken ref_jwt (authorization \<lparr>authorization = JStr ''Bearer t1''\<rparr>) =
      (JBool True, [(''email'', JStr ''john@x.com''), (''role'', JStr ''Developer''),
                    (''name'', JStr ''John Smith'')])"
    by (simp add: ref_jwt_def)
  have c1: "validateToken ref_jwt \<lparr>authorization = JStr ''Bearer t1''\<rparr> (\<lambda>c b. (c, b))
     (\<lambda>r. (200, [(''authorization'', authorization r)])) =
   (200, [(''authorization'', JStr ''t2'')])"
    by (simp add: validateToken_reissues [OF h, THEN conjunct1]) (simp add: ref_jwt_def)
  have g: "validarToken ref_jwt (authorization (john_request (JStr ''Bearer t1''))) =
      (JBool True, [(''email'', JStr ''john@x.com''), (''role'', JStr ''Developer''),
                    (''name'', JStr ''John Smith'')])"
    by (simp add: ref_jwt_def john_request_def)
  have i: "\<forall>r a. store_handlers ref_runtime db0 (r\<lparr>authorization := a\<rparr>) =
                  store_handlers ref_runtime db0 r"
    by (simp add: store_handlers_def split: sum.splits)
  from validateToken_reissues [OF g, THEN conjunct2, THEN mp, OF i]
  have c2: "route_store ref_jwt ref_runtime (john_request (JStr ''Bearer t1'')) db0 =
     store_handlers ref_runtime db0 (john_request (JStr ''Bearer t1''))"
    by (simp add: route_store_def)
  have c3: "store_handlers ref_runtime db0 (john_request (JStr ''Bearer t1'')) =
     (\<lparr>status = 200, message = ''Cadastro realizado com sucesso'', detail = []\<rparr>, db1)"
    by code_simp
  from c1 c2 c3 show ?thesis by simp
qed

text \<open>
  Claim C4. A value that violates the invariant of a field should make the setter raise
  an error of the 400 class, which the responder answers with a status of the 400 class.
  The code does not do this. For every value that violates the invariant of its field
  (an id that is not a positive integer, a name that is not a string or is out of bounds,
  an invalid email, a password against the policy, a commute flag other than 0 and 1) the
  setter throws a plain Error, that of the first check that fails, and the responder
  answers every error that is not an ErrorResponse with status 500. A creation request
  with the password \<open>abcdef\<close> passes \<open>validateCreateBody\<close> and is answered with
  status 500. The middleware of the same route answers the commute flag 2, which the
  setter rejects with a plain Error, with an ErrorResponse of status 400.
\<close>

theorem setter_violation_is_plain_Error:
  "(\<not> positive_integer str2num v \<longrightarrow>
      (\<exists>m. Cargo_set_idCargo str2num v c = Inl (Error m)) \<and>
      (\<exists>m. Funcionario_set_idFuncionario str2num v f = Inl (Error m))) \<and>
   (\<not> valid_nomeCargo v \<longrightarrow> (\<exists>m. Cargo_set_nomeCargo v c = Inl (Error m))) \<and>
   (\<not> valid_nomeFuncionario v \<longrightarrow> (\<exists>m. Funcionario_set_nomeFuncionario v f = Inl (Error m))) \<and>
   (\<not> valid_email v \<longrightarrow> (\<exists>m. Funcionario_set_email v f = Inl (Error m))) \<and>
   (\<not> valid_senha v \<longrightarrow> (\<exists>m. Funcionario_set_senha v f = Inl (Error m))) \<and>
   (\<not> valid_commute_flag v \<longrightarrow> (\<exists>m. Funcionario_set_recebeValeTransporte v f = Inl (Error m))) \<and>
   (trim s \<noteq> [] \<and> length (trim s) < 6 \<longrightarrow>
      Funcionario_set_senha (JStr s) f = Inl (Error ''senha deve ter pelo menos 6 caracteres.'')) \<and>
   (6 \<le> length (trim s) \<and> \<not> test_class is_upper (trim s) \<longrightarrow>
      Funcionario_set_senha (JStr s) f =
        Inl (Error ''senha deve conter pelo menos uma letra maiuscula.'')) \<and>
   (6 \<le> length (trim s) \<and> test_class is_upper (trim s) \<and> \<not> test_class is_digit (trim s) \<longrightarrow>
      Funcionario_set_senha (JStr s) f = Inl (Error ''senha deve conter pelo menos um numero.'')) \<and>
   (is_plain e \<longrightarrow>
      status (errorHandler e) = 500 \<and>
      message (errorHandler e) = ''Ocorreu um erro interno no servidor'') \<and>
   validateCreateBody
     \<lparr>body_funcionario = Some ((john (JNum (Integral 1)))\<lparr>json_senha := JStr ''abcdef''\<rparr>)\<rparr> = Inr () \<and>
   fst (route_store ref_jwt ref_runtime
          ((john_request (JStr ''Bearer t1''))
             \<lparr>req_body :=
                \<lparr>body_funcionario =
                   Some ((john (JNum (Integral 1)))\<lparr>json_senha := JStr ''abcdef''\<rparr>)\<rparr>\<rparr>) db0) =
     \<lparr>status = 500, message = ''Ocorreu um erro interno no servidor'',
      detail = ''senha deve conter pelo menos uma letra maiuscula.''\<rparr> \<and>
   Funcionario_set_recebeValeTransporte (JNum (Integral 2)) new_Funcionario =
     Inl (Error ''recebeValeTransporte deve ser 0 ou 1.'') \<and>
   fst (route_store ref_jwt ref_runtime
          ((john_request (JStr ''Bearer t1''))
             \<lparr>req_body :=
                \<lparr>body_funcionario =
                   Some ((john (JNum (Integral 1)))
                           \<lparr>json_recebeValeTransporte := JNum (Integral 2)\<rparr>)\<rparr>\<rparr>) db0) =
     \<lparr>status = 400, message = ''Erro na validacao de dados'',
      detail = ''O campo recebeValeTransporte deve ser 0 ou 1''\<rparr>"
proof (intro conjI impI)
  assume "\<not> positive_integer str2num v"
  then show "\<exists>m. Cargo_set_idCargo str2num v c = Inl (Error m)"
    by (simp add: positive_integer_def Cargo_set_idCargo_def split: jsnum.splits)
next
  assume "\<not> positive_integer str2num v"
  then show "\<exists>m. Funcionario_set_idFuncionario str2num v f = Inl (Error m)"
    by (simp add: positive_integer_def Funcionario_set_idFuncionario_def split: jsnum.splits)
next
  assume "\<not> valid_nomeCargo v"
  then show "\<exists>m. Cargo_set_nomeCargo v c = Inl (Error m)"
    by (cases v) (auto simp: valid_nomeCargo_def Cargo_set_nomeCargo_def Let_def)
next
  assume "\<not> valid_nomeFuncionario v"
  then show "\<exists>m. Funcionario_set_nomeFuncionario v f = Inl (Error m)"
    by (cases v) (auto simp: valid_nomeFuncionario_def Funcionario_set_nomeFuncionario_def Let_def)
next
  assume "\<not> valid_email v"
  then show "\<exists>m. Funcionario_set_email v f = Inl (Error m)"
    by (cases v) (auto simp: valid_email_def Funcionario_set_email_def Let_def)
next
  assume "\<not> valid_senha v"
  then show "\<exists>m. Funcionario_set_senha v f = Inl (Error m)"
    by (cases v) (auto simp: valid_senha_def Funcionario_set_senha_def Let_def password_policy_def
        test_class_def list_ex_iff is_special_def)
next
  assume "\<not> valid_commute_flag v"
  then show "\<exists>m. Funcionario_set_recebeValeTransporte v f = Inl (Error m)"
    by (auto simp: valid_commute_flag_def Funcionario_set_recebeValeTransporte_def
        split: jsval.splits jsnum.splits)
next
  assume "trim s \<noteq> [] \<and> length (trim s) < 6"
  then show "Funcionario_set_senha (JStr s) f = Inl (Error ''senha deve ter pelo menos 6 caracteres.'')"
    by (simp add: Funcionario_set_senha_def Let_def)
next
  assume "6 \<le> length (trim s) \<and> \<not> test_class is_upper (trim s)"
  then show "Funcionario_set_senha (JStr s) f =
        Inl (Error ''senha deve conter pelo menos uma letra maiuscula.'')"
    by (auto simp add: Funcionario_set_senha_def Let_def)
next
  assume "6 \<le> length (trim s) \<and> test_class is_upper (trim s) \<and> \<not> test_class is_digit (trim s)"
  then show "Funcionario_set_senha (JStr s) f = Inl (Error ''senha deve conter pelo menos um numero.'')"
    by (auto simp add: Funcionario_set_senha_def Let_def)
next
  assume "is_plain e"
  then show "status (errorHandler e) = 500"
    by (cases e) (simp_all add: errorHandler_def internal_error_def)
next
  assume "is_plain e"
  then show "message (errorHandler e) = ''Ocorreu um erro interno no servidor''"
    by (cases e) (simp_all add: errorHandler_def internal_error_def)
next
  show "validateCreateBody
     \<lparr>body_funcionario = Some ((john (JNum (Integral 1)))\<lparr>json_senha := JStr ''abcdef''\<rparr>)\<rparr> = Inr ()"
    by code_simp
next
  show "fst (route_store ref_jwt ref_runtime
          ((john_request (JStr ''Bearer t1''))
             \<lparr>req_body :=
                \<lparr>body_funcionario =
                   Some ((john (JNum (Integral 1)))\<lparr>json_senha := JStr ''abcdef''\<rparr>)\<rparr>\<rparr>) db0) =
     \<lparr>status = 500, message = ''Ocorreu um erro interno no servidor'',
      detail = ''senha deve conter pelo menos uma letra maiuscula.''\<rparr>"
    by code_simp
next
  show "Funcionario_set_recebeValeTransporte (JNum (Integral 2)) new_Funcionario =
     Inl (Error ''recebeValeTransporte deve ser 0 ou 1.'')"
    by code_simp
next
  show "fst (route_store ref_jwt ref_runtime
          ((john_request (JStr ''Bearer t1''))
             \<lparr>req_body :=
                \<lparr>body_funcionario =
                   Some ((john (JNum (Integral 1)))
                           \<lparr>json_recebeValeTransporte := JNum (Integral 2)\<rparr>)\<rparr>\<rparr>) db0) =
     \<lparr>status = 400, message = ''Erro na validacao de dados'',
      detail = ''O campo recebeValeTransporte deve ser 0 ou 1''\<rparr>"
    by code_simp
qed

theorem setter_violation_is_plain_Error_witness:
  "\<not> positive_integer ref_str2num (JNum (Integral 0)) \<and>
   (\<exists>m. Cargo_set_idCargo ref_str2num (JNum (Integral 0)) new_Cargo = Inl (Error m)) \<and>
   \<not> valid_senha (JStr ''abcdef'') \<and>
   (\<exists>m. Funcionario_set_senha (JStr ''abcdef'') new_Funcionario = Inl (Error m)) \<and>
   \<not> valid_email (JStr ''adm@adm'') \<and>
   (\<exists>m. Funcionario_set_email (JStr ''adm@adm'') new_Funcionario = Inl (Error m)) \<and>
   \<not> valid_nomeCargo (JNum (Integral 7)) \<and>
   (\<exists>m. Cargo_set_nomeCargo (JNum (Integral 7)) new_Cargo = Inl (Error m)) \<and>
   \<not> valid_nomeFuncionario (JStr '' Al '') \<and>
   (\<exists>m. Funcionario_set_nomeFuncionario (JStr '' Al '') new_Funcionario = Inl (Error m)) \<and>
   \<not> valid_commute_flag (JNum (Integral 2)) \<and>
   (\<exists>m. Funcionario_set_recebeValeTransporte (JNum (Integral 2)) new_Funcionario = Inl (Error m)) \<and>
   Funcionario_set_senha (JStr ''ab1!'') new_Funcionario =
     Inl (Error ''senha deve ter pelo menos 6 caracteres.'') \<and>
   Funcionario_set_senha (JStr ''abcdef'') new_Funcionario =
     Inl (Error ''senha deve conter pelo menos uma letra maiuscula.'') \<and>
   Funcionario_set_senha (JStr ''Abcdef'') new_Funcionario =
     Inl (Error ''senha deve conter pelo menos um numero.'') \<and>
   is_plain (TypeError ''Cannot read properties of undefined (reading cargo)'') \<and>
   status (errorHandler (TypeError ''Cannot read properties of undefined (reading cargo)'')) = 500"
proof -
  have h1: "\<not> positive_integer ref_str2num (JNum (Integral 0))" by code_simp
  have h2: "\<not> valid_senha (JStr ''abcdef'')" by code_simp
  have h3: "\<not> valid_email (JStr ''adm@adm'')" by code_simp
  have h4: "\<not> valid_nomeCargo (JNum (Integral 7))" by code_simp
  have h5: "\<not> valid_nomeFuncionario (JStr '' Al '')" by code_simp
  have h6: "\<not> valid_commute_flag (JNum (Integral 2))" by code_simp
  from setter_violation_is_plain_Error [of ref_str2num "JNum (Integral 0)" new_Cargo] h1
  have c1: "\<exists>m. Cargo_set_idCargo ref_str2num (JNum (Integral 0)) new_Cargo = Inl (Error m)"
    by blast
  from setter_violation_is_plain_Error [of _ "JStr ''abcdef''" _ new_Funcionario] h2
  have c2: "\<exists>m. Funcionario_set_senha (JStr ''abcdef'') new_Funcionario = Inl (Error m)"
    by blast
  from setter_violation_is_plain_Error [of _ "JStr ''adm@adm''" _ new_Funcionario] h3
  have c3: "\<exists>m. Funcionario_set_email (JStr ''adm@adm'') new_Funcionario = Inl (Error m)"
    by blast
  from setter_violation_is_plain_Error [of _ "JNum (Integral 7)" new_Cargo] h4
  have c4: "\<exists>m. Cargo_set_nomeCargo (JNum (Integral 7)) new_Cargo = Inl (Error m)"
    by blast
  from setter_violation_is_plain_Error [of _ "JStr '' Al ''" _ new_Funcionario] h5
  have c5: "\<exists>m. Funcionario_set_nomeFuncionario (JStr '' Al '') new_Funcionario = Inl (Error m)"
    by blast
  from setter_violation_is_plain_Error [of _ "JNum (Integral 2)" _ new_Funcionario] h6
  have c6: "\<exists>m. Funcionario_set_recebeValeTransporte (JNum (Integral 2)) new_Funcionario = Inl (Error m)"
    by blast
  have h7: "trim ''ab1!'' \<noteq> [] \<and> length (trim ''ab1!'') < 6" by code_simp
  have h8: "6 \<le> length (trim ''abcdef'') \<and> \<not> test_class is_upper (trim ''abcdef'')" by code_simp
  have h9: "6 \<le> length (trim ''Abcdef'') \<and> test_class is_upper (trim ''Abcdef'') \<and>
            \<not> test_class is_digit (trim ''Abcdef'')" by code_simp
  from setter_violation_is_plain_Error [where s = "''ab1!''" and f = new_Funcionario] h7
  have c7: "Funcionario_set_senha (JStr ''ab1!'') new_Funcionario =
     Inl (Error ''senha deve ter pelo menos 6 caracteres.'')"
    by blast
  from setter_violation_is_plain_Error [where s = "''abcdef''" and f = new_Funcionario] h8
  have c8: "Funcionario_set_senha (JStr ''abcdef'') new_Funcionario =
     Inl (Error ''senha deve conter pelo menos uma letra maiuscula.'')"
    by blast
  from setter_violation_is_plain_Error [where s = "''Abcdef''" and f = new_Funcionario] h9
  have c9: "Funcionario_set_senha (JStr ''Abcdef'') new_Funcionario =
     Inl (Error ''senha deve conter pelo menos um numero.'')"
    by blast
  have h10: "is_plain (TypeError ''Cannot read properties of undefined (reading cargo)'')"
    by code_simp
  from setter_violation_is_plain_Error
         [where e = "TypeError ''Cannot read properties of undefined (reading cargo)''"] h10
  have c10: "status (errorHandler (TypeError ''Cannot read properties of undefined (reading cargo)'')) = 500"
    by blast
  from h1 h2 h3 h4 h5 h6 c1 c2 c3 c4 c5 c6 c7 c8 c9 h10 c10 show ?thesis by blast
qed

text \<open>
  Claim C5. When the store already holds a Role with the name of a well-formed creation
  request (the lookup by \<open>nomeCargo\<close> finds a row), \<open>createCargo\<close> throws the
  ErrorResponse 400 "Cargo ja existe" and the lookup is the only statement executed; when
  the store already holds an Employee with the email of a well-formed creation request,
  \<open>createFuncionario\<close> throws the ErrorResponse 400
  "Ja existe um Funcionario com o email fornecido" and the two lookups are the only
  statements executed. No INSERT is issued in either case.
\<close>

theorem duplicate_is_conflict:
  "(Cargo_set_nomeCargo (json_nomeCargo cj) new_Cargo = Inr c \<longrightarrow>
    pool_execute rt ''SELECT * FROM cargo WHERE nomeCargo = ?;'' [js_str (nomeCargo c)] (store db)
      = (Inr (Rows rows), s') \<longrightarrow>
    rows \<noteq> [] \<longrightarrow>
    createCargo rt cj db =
      (Inl (ErrorResponse 400 ''Cargo ja existe'' (''O cargo '' @ template (nomeCargo c) @ '' ja existe'')),
       \<lparr>store = s',
        executed = executed db @
          [(''SELECT * FROM cargo WHERE nomeCargo = ?;'', [js_str (nomeCargo c)])]\<rparr>)) \<and>
   (json_cargo j = Some cj' \<longrightarrow>
    Cargo_set_idCargo (StringToNumber rt) (json_idCargo cj') new_Cargo = Inr c' \<longrightarrow>
    create_assign j c' = Inr f \<longrightarrow>
    pool_execute rt ''SELECT * FROM funcionario WHERE email = ?;'' [js_str (email f)]
      (snd (pool_execute rt ''SELECT * FROM cargo WHERE idCargo = ?;'' [js_int (idCargo c')] (store db)))
      = (Inr (Rows rows'), s'') \<longrightarrow>
    rows' \<noteq> [] \<longrightarrow>
    createFuncionario rt j db =
      (Inl (ErrorResponse 400 ''Ja existe um Funcionario com o email fornecido''
              (''O email '' @ template (email f) @ '' ja esta cadastrado'')),
       \<lparr>store = s'',
        executed = executed db @
          [(''SELECT * FROM cargo WHERE idCargo = ?;'', [js_int (idCargo c')]),
           (''SELECT * FROM funcionario WHERE email = ?;'', [js_str (email f)])]\<rparr>))"
proof (intro conjI impI)
  assume "Cargo_set_nomeCargo (json_nomeCargo cj) new_Cargo = Inr c"
    and "pool_execute rt ''SELECT * FROM cargo WHERE nomeCargo = ?;'' [js_str (nomeCargo c)] (store db)
      = (Inr (Rows rows), s')"
    and "rows \<noteq> []"
  then show "createCargo rt cj db =
      (Inl (ErrorResponse 400 ''Cargo ja existe'' (''O cargo '' @ template (nomeCargo c) @ '' ja existe'')),
       \<lparr>store = s',
        executed = executed db @
          [(''SELECT * FROM cargo WHERE nomeCargo = ?;'', [js_str (nomeCargo c)])]\<rparr>)"
    by (simp add: createCargo_def CargoDAO_findByField_def CargoDAO_allowedFields_def
        bind_io_def sync_def execute_def throw_def)
next
  assume a: "json_cargo j = Some cj'"
    "Cargo_set_idCargo (StringToNumber rt) (json_idCargo cj') new_Cargo = Inr c'"
    "create_assign j c' = Inr f"
    and e: "pool_execute rt ''SELECT * FROM funcionario WHERE email = ?;'' [js_str (email f)]
      (snd (pool_execute rt ''SELECT * FROM cargo WHERE idCargo = ?;'' [js_int (idCargo c')] (store db)))
      = (Inr (Rows rows'), s'')"
    and r: "rows' \<noteq> []"
  have "createFuncionario rt j db =
      bind_io (unawaited (CargoDAO_findByField rt ''idCargo'' (js_int (idCargo c')))) (\<lambda>cargoExiste.
        bind_io (FuncionarioDAO_findByField rt ''email'' (js_str (email f))) (\<lambda>emailExiste.
          if gt0 (result_length emailExiste)
          then throw (ErrorResponse 400 ''Ja existe um Funcionario com o email fornecido''
                     (''O email '' @ template (email f) @ '' ja esta cadastrado''))
          else bind_io (FuncionarioDAO_create rt f) (\<lambda>(novoId, obj).
            sync (Funcionario_set_idFuncionario (StringToNumber rt) (JNum (Integral (int novoId))) obj)))) db"
    by (simp add: createFuncionario_def a)
  also have "\<dots> = (Inl (ErrorResponse 400 ''Ja existe um Funcionario com o email fornecido''
              (''O email '' @ template (email f) @ '' ja esta cadastrado'')),
       \<lparr>store = s'',
        executed = executed db @
          [(''SELECT * FROM cargo WHERE idCargo = ?;'', [js_int (idCargo c')]),
           (''SELECT * FROM funcionario WHERE email = ?;'', [js_str (email f)])]\<rparr>)"
    using e r
    by (simp add: bind_io_def unawaited_findByField FuncionarioDAO_findByField_def
        FuncionarioDAO_allowedFields_def execute_def throw_def)
  finally show "createFuncionario rt j db =
      (Inl (ErrorResponse 400 ''Ja existe um Funcionario com o email fornecido''
              (''O email '' @ template (email f) @ '' ja esta cadastrado'')),
       \<lparr>store = s'',
        executed = executed db @
          [(''SELECT * FROM cargo WHERE idCargo = ?;'', [js_int (idCargo c')]),
           (''SELECT * FROM funcionario WHERE email = ?;'', [js_str (email f)])]\<rparr>)" .
qed

text \<open>The same payload twice: the first creation succeeds, and the second, on the
  database the first one left, is the conflict.\<close>

theorem duplicate_is_conflict_witness:
  "fst (createCargo ref_runtime tester db0) = Inr 2 \<and>
   createCargo ref_runtime tester db2 =
     (Inl (ErrorResponse 400 ''Cargo ja existe'' ''O cargo Tester ja existe''),
      db2\<lparr>executed := executed db2 @ [(''SELECT * FROM cargo WHERE nomeCargo = ?;'', [JStr ''Tester''])]\<rparr>) \<and>
   fst (createFuncionario ref_runtime (john (JNum (Integral 1))) db0) =
     Inr (john_obj\<lparr>senha := Some ''$2b$12$H.321@ssaP.''\<rparr>) \<and>
   createFuncionario ref_runtime (john (JNum (Integral 1))) db1 =
     (Inl (ErrorResponse 400 ''Ja existe um Funcionario com o email fornecido''
             ''O email john@x.com ja esta cadastrado''),
      db1\<lparr>executed := executed db1 @
             [(''SELECT * FROM cargo WHERE idCargo = ?;'', [JNum (Integral 1)]),
              (''SELECT * FROM funcionario WHERE email = ?;'', [JStr ''john@x.com''])]\<rparr>)"
proof -
  let ?c = "\<lparr>idCargo = None, nomeCargo = Some ''Tester''\<rparr>"
  have first: "fst (createCargo ref_runtime tester db0) = Inr 2" by code_simp
  have h1: "Cargo_set_nomeCargo (json_nomeCargo tester) new_Cargo = Inr ?c" by code_simp
  have h2: "pool_execute ref_runtime ''SELECT * FROM cargo WHERE nomeCargo = ?;''
              [js_str (nomeCargo ?c)] (store db2) =
            (Inr (Rows [[(''idCargo'', JNum (Integral 2)), (''nomeCargo'', JStr ''Tester'')]]), store db2)"
    by code_simp
  have h3: "[[(''idCargo'', JNum (Integral 2)), (''nomeCargo'', JStr ''Tester'')]] \<noteq> []" by simp
  have t: "''O cargo '' @ template (nomeCargo ?c) @ '' ja existe'' = ''O cargo Tester ja existe''"
    by code_simp
  have u: "js_str (nomeCargo ?c) = JStr ''Tester''" by code_simp
  have r: "\<lparr>store = store db2, executed = executed db2 @ x\<rparr> = db2\<lparr>executed := executed db2 @ x\<rparr>" for x
    by simp
  from duplicate_is_conflict [THEN conjunct1, rule_format, OF h1 h2 h3]
  have c1: "createCargo ref_runtime tester db2 =
     (Inl (ErrorResponse 400 ''Cargo ja existe'' ''O cargo Tester ja existe''),
      db2\<lparr>executed := executed db2 @ [(''SELECT * FROM cargo WHERE nomeCargo = ?;'', [JStr ''Tester''])]\<rparr>)"
    unfolding t u r .
  let ?c' = "\<lparr>idCargo = Some 1, nomeCargo = None\<rparr>"
  let ?f = "john_obj\<lparr>idFuncionario := None\<rparr>"
  let ?row = "[(''idFuncionario'', JNum (Integral 1)), (''nomeFuncionario'', JStr ''John Smith''),
               (''email'', JStr ''john@x.com''), (''senha'', JStr ''$2b$12$H.321@ssaP.''),
               (''recebeValeTransporte'', JNum (Integral 1)), (''Cargo_idCargo'', JNum (Integral 1))]"
  have second: "fst (createFuncionario ref_runtime (john (JNum (Integral 1))) db0) =
     Inr (john_obj\<lparr>senha := Some ''$2b$12$H.321@ssaP.''\<rparr>)" by code_simp
  have g1: "json_cargo (john (JNum (Integral 1))) = Some \<lparr>json_idCargo = JNum (Integral 1), json_nomeCargo = JUndefined\<rparr>"
    by code_simp
  have g2: "Cargo_set_idCargo (StringToNumber ref_runtime)
              (json_idCargo \<lparr>json_idCargo = JNum (Integral 1), json_nomeCargo = JUndefined\<rparr>) new_Cargo = Inr ?c'"
    by code_simp
  have g3: "create_assign (john (JNum (Integral 1))) ?c' = Inr ?f" by code_simp
  have g4: "pool_execute ref_runtime ''SELECT * FROM funcionario WHERE email = ?;'' [js_str (email ?f)]
      (snd (pool_execute ref_runtime ''SELECT * FROM cargo WHERE idCargo = ?;'' [js_int (idCargo ?c')] (store db1)))
      = (Inr (Rows [?row]), store db1)"
    by code_simp
  have g5: "[?row] \<noteq> []" by simp
  have t': "''O email '' @ template (email ?f) @ '' ja esta cadastrado'' = ''O email john@x.com ja esta cadastrado''"
    by code_simp
  have u': "js_str (email ?f) = JStr ''john@x.com''" "js_int (idCargo ?c') = JNum (Integral 1)"
    by code_simp+
  have r': "\<lparr>store = store db1, executed = executed db1 @ x\<rparr> = db1\<lparr>executed := executed db1 @ x\<rparr>" for x
    by simp
  from duplicate_is_conflict [THEN conjunct2, rule_format, OF g1 g2 g3 g4 g5]
  have c2: "createFuncionario ref_runtime (john (JNum (Integral 1))) db1 =
     (Inl (ErrorResponse 400 ''Ja existe um Funcionario com o email fornecido''
             ''O email john@x.com ja esta cadastrado''),
      db1\<lparr>executed := executed db1 @
             [(''SELECT * FROM cargo WHERE idCargo = ?;'', [JNum (Integral 1)]),
              (''SELECT * FROM funcionario WHERE email = ?;'', [JStr ''john@x.com''])]\<rparr>)"
    unfolding t' u' r' .
  from first c1 second c2 show ?thesis by blast
qed

text \<open>
  Claim C6. The setter accepts a password string exactly when the trimmed string has
  at least 6 characters, a digit, an uppercase letter and a symbol of the
  special-character set; and \<open>createFuncionario\<close> succeeds only on a payload whose
  password is such a string.
\<close>

theorem senha_policy:
  "((\<exists>f'. Funcionario_set_senha (JStr pw) f = Inr f') \<longleftrightarrow> password_policy (trim pw)) \<and>
   (fst (createFuncionario rt j db) = Inr r \<longrightarrow>
      (\<exists>p. json_senha j = JStr p \<and> password_policy (trim p)))"
proof (intro conjI impI)
  show "(\<exists>f'. Funcionario_set_senha (JStr pw) f = Inr f') \<longleftrightarrow> password_policy (trim pw)"
    by (simp add: set_senha_accepts_iff)
next
  assume "fst (createFuncionario rt j db) = Inr r"
  then obtain db' where "createFuncionario rt j db = (Inr r, db')"
    by (cases "createFuncionario rt j db") auto
  then show "\<exists>p. json_senha j = JStr p \<and> password_policy (trim p)"
    using createFuncionario_assigned create_assign_senha by blast
qed

theorem senha_policy_witness:
  "password_policy (trim ''Pass@123'') \<and>
   (\<exists>f'. Funcionario_set_senha (JStr ''Pass@123'') new_Funcionario = Inr f') \<and>
   \<not> password_policy (trim ''password1!'') \<and>
   (\<forall>f'. Funcionario_set_senha (JStr ''password1!'') new_Funcionario \<noteq> Inr f') \<and>
   (\<exists>p. json_senha (john (JNum (Integral 1))) = JStr p \<and> password_policy (trim p))"
proof -
  have p: "password_policy (trim ''Pass@123'')" by code_simp
  have n: "\<not> password_policy (trim ''password1!'')" by code_simp
  have c: "fst (createFuncionario ref_runtime (john (JNum (Integral 1))) db0) =
      Inr (john_obj\<lparr>senha := Some ''$2b$12$H.321@ssaP.''\<rparr>)"
    by code_simp
  from senha_policy [of "''Pass@123''" new_Funcionario] p
  have a: "\<exists>f'. Funcionario_set_senha (JStr ''Pass@123'') new_Funcionario = Inr f'" by blast
  from senha_policy [of "''password1!''" new_Funcionario] n
  have b: "\<forall>f'. Funcionario_set_senha (JStr ''password1!'') new_Funcionario \<noteq> Inr f'" by blast
  from senha_policy [of _ _ ref_runtime "john (JNum (Integral 1))" db0] c
  have d: "\<exists>p. json_senha (john (JNum (Integral 1))) = JStr p \<and> password_policy (trim p)" by blast
  from p a n b d show ?thesis by blast
qed

text \<open>
  Claim C7. For a login with a well-formed email and a password within the policy, the
  result is the same ErrorResponse 401 "Usuario ou senha invalidos", with the same
  detail and after the same single statement, whether the lookup by email finds no row
  (or more than one) or finds the one row and the password does not match its digest.
\<close>

theorem login_failures_indistinguishable:
  assumes "Funcionario_set_email (json_email j) new_Funcionario = Inr f1"
    and "Funcionario_set_senha (json_senha j) f1 = Inr f"
    and "pool_execute rt SQL_login [js_str (email f)] (store db) = (Inr res, s')"
    and "result_length res \<noteq> Some 1 \<or>
         (\<exists>row. res = Rows [row] \<and>
            bcrypt_compare rt (js_str (senha f)) (get_prop row ''senha'') = Inr False)"
  shows "loginFuncionario rt jwt j db =
           (Inl (ErrorResponse 401 ''Usuario ou senha invalidos''
                   ''Nao foi possivel realizar autenticacao''),
            \<lparr>store = s', executed = executed db @ [(SQL_login, [js_str (email f)])]\<rparr>)"
proof -
  let ?db' = "\<lparr>store = s', executed = executed db @ [(SQL_login, [js_str (email f)])]\<rparr>"
  have ex: "execute rt SQL_login [js_str (email f)] db = (Inr res, ?db')"
    using assms(3) by (rule execute_Inr)
  have "FuncionarioDAO_login rt f db = (Inr None, ?db')"
    using assms(4)
  proof
    assume "result_length res \<noteq> Some 1"
    then show ?thesis
      by (simp add: FuncionarioDAO_login_def bind_io_def ex return_io_def)
  next
    assume "\<exists>row. res = Rows [row] \<and>
            bcrypt_compare rt (js_str (senha f)) (get_prop row ''senha'') = Inr False"
    then obtain row where r: "res = Rows [row]"
      and c: "bcrypt_compare rt (js_str (senha f)) (get_prop row ''senha'') = Inr False"
      by blast
    show ?thesis
      using ex by (simp add: FuncionarioDAO_login_def bind_io_def r c
          bcrypt_compare_io_def return_io_def sync_def)
  qed
  then show ?thesis
    by (simp add: loginFuncionario_def assms(1,2) bind_io_def sync_def throw_def)
qed

text \<open>An email that is not registered and a wrong password for John Smith give the same
  error; the right password logs in.\<close>

theorem login_failures_indistinguishable_witness:
  "loginFuncionario ref_runtime ref_jwt (credentials ''ghost@x.com'' ''Pass@123'') db1 =
     (Inl (ErrorResponse 401 ''Usuario ou senha invalidos'' ''Nao foi possivel realizar autenticacao''),
      db1\<lparr>executed := executed db1 @ [(SQL_login, [JStr ''ghost@x.com''])]\<rparr>) \<and>
   loginFuncionario ref_runtime ref_jwt (credentials ''john@x.com'' ''Wrong@123'') db1 =
     (Inl (ErrorResponse 401 ''Usuario ou senha invalidos'' ''Nao foi possivel realizar autenticacao''),
      db1\<lparr>executed := executed db1 @ [(SQL_login, [JStr ''john@x.com''])]\<rparr>) \<and>
   fst (FuncionarioControl_login ref_runtime ref_jwt
          \<lparr>body_funcionario = Some (credentials ''ghost@x.com'' ''Pass@123'')\<rparr> db1) =
     \<lparr>status = 401, message = ''Usuario ou senha invalidos'',
      detail = ''Nao foi possivel realizar autenticacao''\<rparr> \<and>
   fst (FuncionarioControl_login ref_runtime ref_jwt
          \<lparr>body_funcionario = Some (credentials ''john@x.com'' ''Wrong@123'')\<rparr> db1) =
     \<lparr>status = 401, message = ''Usuario ou senha invalidos'',
      detail = ''Nao foi possivel realizar autenticacao''\<rparr> \<and>
   (\<exists>r. fst (loginFuncionario ref_runtime ref_jwt (credentials ''john@x.com'' ''Pass@123'') db1) = Inr r)"
proof -
  let ?g1 = "new_Funcionario\<lparr>email := Some ''ghost@x.com''\<rparr>"
  let ?g = "?g1\<lparr>senha := Some ''Pass@123''\<rparr>"
  let ?j1 = "new_Funcionario\<lparr>email := Some ''john@x.com''\<rparr>"
  let ?j = "?j1\<lparr>senha := Some ''Wrong@123''\<rparr>"
  let ?row = "[(''idFuncionario'', JNum (Integral 1)), (''nomeFuncionario'', JStr ''John Smith''),
               (''email'', JStr ''john@x.com''), (''senha'', JStr ''$2b$12$H.321@ssaP.''),
               (''recebeValeTransporte'', JNum (Integral 1)),
               (''idCargo'', JNum (Integral 1)), (''nomeCargo'', JStr ''Developer'')]"
  have r: "\<lparr>store = store db1, executed = executed db1 @ x\<rparr> = db1\<lparr>executed := executed db1 @ x\<rparr>" for x
    by simp
  have a1: "Funcionario_set_email (json_email (credentials ''ghost@x.com'' ''Pass@123'')) new_Funcionario = Inr ?g1"
    by code_simp
  have a2: "Funcionario_set_senha (json_senha (credentials ''ghost@x.com'' ''Pass@123'')) ?g1 = Inr ?g"
    by code_simp
  have a3: "pool_execute ref_runtime SQL_login [js_str (email ?g)] (store db1) = (Inr (Rows []), store db1)"
    by code_simp
  have a4: "result_length (Rows []) \<noteq> Some 1 \<or>
         (\<exists>row. Rows [] = Rows [row] \<and>
            bcrypt_compare ref_runtime (js_str (senha ?g)) (get_prop row ''senha'') = Inr False)"
    by simp
  have u: "js_str (email ?g) = JStr ''ghost@x.com''" by code_simp
  from login_failures_indistinguishable [OF a1 a2 a3 a4, of ref_jwt]
  have c1: "loginFuncionario ref_runtime ref_jwt (credentials ''ghost@x.com'' ''Pass@123'') db1 =
     (Inl (ErrorResponse 401 ''Usuario ou senha invalidos'' ''Nao foi possivel realizar autenticacao''),
      db1\<lparr>executed := executed db1 @ [(SQL_login, [JStr ''ghost@x.com''])]\<rparr>)"
    unfolding u r .
  have b1: "Funcionario_set_email (json_email (credentials ''john@x.com'' ''Wrong@123'')) new_Funcionario = Inr ?j1"
    by code_simp
  have b2: "Funcionario_set_senha (json_senha (credentials ''john@x.com'' ''Wrong@123'')) ?j1 = Inr ?j"
    by code_simp
  have b3: "pool_execute ref_runtime SQL_login [js_str (email ?j)] (store db1) = (Inr (Rows [?row]), store db1)"
    by code_simp
  have b4': "bcrypt_compare ref_runtime (js_str (senha ?j)) (get_prop ?row ''senha'') = Inr False"
    by code_simp
  then have b4: "result_length (Rows [?row]) \<noteq> Some 1 \<or>
         (\<exists>row. Rows [?row] = Rows [row] \<and>
            bcrypt_compare ref_runtime (js_str (senha ?j)) (get_prop row ''senha'') = Inr False)"
    by blast
  have u': "js_str (email ?j) = JStr ''john@x.com''" by code_simp
  from login_failures_indistinguishable [OF b1 b2 b3 b4, of ref_jwt]
  have c2: "loginFuncionario ref_runtime ref_jwt (credentials ''john@x.com'' ''Wrong@123'') db1 =
     (Inl (ErrorResponse 401 ''Usuario ou senha invalidos'' ''Nao foi possivel realizar autenticacao''),
      db1\<lparr>executed := executed db1 @ [(SQL_login, [JStr ''john@x.com''])]\<rparr>)"
    unfolding u' r .
  have c3: "fst (loginFuncionario ref_runtime ref_jwt (credentials ''john@x.com'' ''Pass@123'') db1) =
     Inr \<lparr>user = [(''email'', JStr ''john@x.com''), (''role'', JStr ''Developer''),
                  (''name'', JStr ''John Smith''), (''idFuncionario'', JNum (Integral 1))],
          token = ''t2''\<rparr>"
    by code_simp
  have k1: "fst (FuncionarioControl_login ref_runtime ref_jwt
          \<lparr>body_funcionario = Some (credentials ''ghost@x.com'' ''Pass@123'')\<rparr> db1) =
     \<lparr>status = 401, message = ''Usuario ou senha invalidos'',
      detail = ''Nao foi possivel realizar autenticacao''\<rparr>"
    by (simp add: FuncionarioControl_login_def c1 errorHandler_def)
  have k2: "fst (FuncionarioControl_login ref_runtime ref_jwt
          \<lparr>body_funcionario = Some (credentials ''john@x.com'' ''Wrong@123'')\<rparr> db1) =
     \<lparr>status = 401, message = ''Usuario ou senha invalidos'',
      detail = ''Nao foi possivel realizar autenticacao''\<rparr>"
    by (simp add: FuncionarioControl_login_def c2 errorHandler_def)
  from c1 c2 c3 k1 k2 show ?thesis by simp
qed

text \<open>
  Claim C8. With digests that carry no white space at their ends (as those of bcrypt),
  the only statement \<open>create\<close> can execute is the INSERT whose password parameter is
  the digest of the object's password, and the only statements \<open>update\<close> can execute
  are the UPDATE whose password parameter is the digest of the object's password, when
  the object has one, and the UPDATE that does not write the password column, when it
  has none. No statement carries the password itself in the password column.
\<close>

theorem password_column_is_digest:
  assumes fmt: "\<forall>v d. bcrypt_hash rt v 12 = Inr d \<longrightarrow> trim d = d"
  shows "(executed (snd (FuncionarioDAO_create rt obj db)) = executed db \<or>
          (\<exists>d c. bcrypt_hash rt (js_str (senha obj)) 12 = Inr d \<and>
             executed (snd (FuncionarioDAO_create rt obj db)) =
               executed db @
                 [(SQL_insert_funcionario,
                   [js_str (nomeFuncionario obj), js_str (email obj), JStr d,
                    js_int (recebeValeTransporte obj), c])])) \<and>
         (executed (snd (FuncionarioDAO_update rt obj db)) = executed db \<or>
          (\<exists>d c. senha obj \<noteq> None \<and> senha obj \<noteq> Some [] \<and>
             bcrypt_hash rt (js_str (senha obj)) 12 = Inr d \<and>
             executed (snd (FuncionarioDAO_update rt obj db)) =
               executed db @
                 [(SQL_update_com_senha,
                   [js_str (nomeFuncionario obj), js_str (email obj), JStr d,
                    js_int (recebeValeTransporte obj), c, js_int (idFuncionario obj)])]) \<or>
          (\<exists>c. (senha obj = None \<or> senha obj = Some []) \<and>
             executed (snd (FuncionarioDAO_update rt obj db)) =
               executed db @
                 [(SQL_update_sem_senha,
                   [js_str (nomeFuncionario obj), js_str (email obj),
                    js_int (recebeValeTransporte obj), c, js_int (idFuncionario obj)])]))"
proof (intro conjI)
  show "executed (snd (FuncionarioDAO_create rt obj db)) = executed db \<or>
          (\<exists>d c. bcrypt_hash rt (js_str (senha obj)) 12 = Inr d \<and>
             executed (snd (FuncionarioDAO_create rt obj db)) =
               executed db @
                 [(SQL_insert_funcionario,
                   [js_str (nomeFuncionario obj), js_str (email obj), JStr d,
                    js_int (recebeValeTransporte obj), c])])"
  proof (cases "bcrypt_hash rt (js_str (senha obj)) 12")
    case (Inl msg)
    then show ?thesis
      by (simp add: FuncionarioDAO_create_def bcrypt_hash_io_def)
  next
    case (Inr d)
    with fmt have td: "trim d = d" by blast
    show ?thesis
    proof (cases "Funcionario_set_senha (JStr d) obj")
      case (Inl e)
      with Inr show ?thesis
        by (simp add: FuncionarioDAO_create_def bcrypt_hash_io_def)
    next
      case (Inr obj')
      from set_senha_result [OF this] td have obj': "obj' = obj\<lparr>senha := Some d\<rparr>"
        by auto
      show ?thesis
      proof (cases "cargo obj")
        case None
        with \<open>bcrypt_hash rt (js_str (senha obj)) 12 = Inr d\<close> Inr obj' show ?thesis
          by (simp add: FuncionarioDAO_create_def bcrypt_hash_io_def cargo_idCargo_def)
      next
        case (Some c)
        with \<open>bcrypt_hash rt (js_str (senha obj)) 12 = Inr d\<close> Inr obj' show ?thesis
          by (simp add: FuncionarioDAO_create_def bcrypt_hash_io_def cargo_idCargo_def
              snd_bind_io_pure snd_insert_tail execute_executed js_str_def)
      qed
    qed
  qed
next
  show "executed (snd (FuncionarioDAO_update rt obj db)) = executed db \<or>
          (\<exists>d c. senha obj \<noteq> None \<and> senha obj \<noteq> Some [] \<and>
             bcrypt_hash rt (js_str (senha obj)) 12 = Inr d \<and>
             executed (snd (FuncionarioDAO_update rt obj db)) =
               executed db @
                 [(SQL_update_com_senha,
                   [js_str (nomeFuncionario obj), js_str (email obj), JStr d,
                    js_int (recebeValeTransporte obj), c, js_int (idFuncionario obj)])]) \<or>
          (\<exists>c. (senha obj = None \<or> senha obj = Some []) \<and>
             executed (snd (FuncionarioDAO_update rt obj db)) =
               executed db @
                 [(SQL_update_sem_senha,
                   [js_str (nomeFuncionario obj), js_str (email obj),
                    js_int (recebeValeTransporte obj), c, js_int (idFuncionario obj)])])"
    by (cases "bcrypt_hash rt (js_str (senha obj)) 12"; cases "cargo obj")
       (simp_all add: FuncionarioDAO_update_def bcrypt_hash_io_def cargo_idCargo_def
          snd_bind_io_pure snd_return_io execute_executed)
qed

theorem password_column_is_digest_witness:
  "bcrypt_hash ref_runtime (js_str (senha john_obj)) 12 = Inr ''$2b$12$H.321@ssaP.'' \<and>
   executed (snd (FuncionarioDAO_create ref_runtime john_obj db0)) =
     [(SQL_insert_funcionario,
       [JStr ''John Smith'', JStr ''john@x.com'', JStr ''$2b$12$H.321@ssaP.'',
        JNum (Integral 1), JNum (Integral 1)])] \<and>
   executed (snd (FuncionarioDAO_update ref_runtime john_obj db1)) =
     executed db1 @
     [(SQL_update_com_senha,
       [JStr ''John Smith'', JStr ''john@x.com'', JStr ''$2b$12$H.321@ssaP.'',
        JNum (Integral 1), JNum (Integral 1), JNum (Integral 1)])] \<and>
   executed (snd (FuncionarioDAO_update ref_runtime (john_obj\<lparr>senha := None\<rparr>) db1)) =
     executed db1 @
     [(SQL_update_sem_senha,
       [JStr ''John Smith'', JStr ''john@x.com'', JNum (Integral 1), JNum (Integral 1),
        JNum (Integral 1)])]"
proof -
  have h: "\<forall>v d. bcrypt_hash ref_runtime v 12 = Inr d \<longrightarrow> trim d = d"
    by (rule ref_digest_trimmed)
  have d: "bcrypt_hash ref_runtime (js_str (senha john_obj)) 12 = Inr ''$2b$12$H.321@ssaP.''"
    by code_simp
  have e0: "executed db0 = []" by code_simp
  have n1: "executed (snd (FuncionarioDAO_create ref_runtime john_obj db0)) \<noteq> executed db0"
    by code_simp
  have v: "js_str (nomeFuncionario john_obj) = JStr ''John Smith''"
    "js_str (email john_obj) = JStr ''john@x.com''"
    "js_int (recebeValeTransporte john_obj) = JNum (Integral 1)"
    "js_int (idFuncionario john_obj) = JNum (Integral 1)"
    by code_simp+
  have ci: "cargo_idCargo john_obj = Inr (JNum (Integral 1))" by code_simp
  from password_column_is_digest [OF h, of john_obj db0, THEN conjunct1] n1 d
  obtain c where "executed (snd (FuncionarioDAO_create ref_runtime john_obj db0)) =
     executed db0 @ [(SQL_insert_funcionario,
       [JStr ''John Smith'', JStr ''john@x.com'', JStr ''$2b$12$H.321@ssaP.'', JNum (Integral 1), c])]"
    unfolding v by auto
  moreover have "snd (last (executed (snd (FuncionarioDAO_create ref_runtime john_obj db0)))) ! 4 = JNum (Integral 1)"
    by code_simp
  ultimately have c1: "executed (snd (FuncionarioDAO_create ref_runtime john_obj db0)) =
     [(SQL_insert_funcionario,
       [JStr ''John Smith'', JStr ''john@x.com'', JStr ''$2b$12$H.321@ssaP.'',
        JNum (Integral 1), JNum (Integral 1)])]"
    using e0 by simp
  have c2: "executed (snd (FuncionarioDAO_update ref_runtime john_obj db1)) =
     executed db1 @
     [(SQL_update_com_senha,
       [JStr ''John Smith'', JStr ''john@x.com'', JStr ''$2b$12$H.321@ssaP.'',
        JNum (Integral 1), JNum (Integral 1), JNum (Integral 1)])]"
    by code_simp
  have c3: "executed (snd (FuncionarioDAO_update ref_runtime (john_obj\<lparr>senha := None\<rparr>) db1)) =
     executed db1 @
     [(SQL_update_sem_senha,
       [JStr ''John Smith'', JStr ''john@x.com'', JNum (Integral 1), JNum (Integral 1),
        JNum (Integral 1)])]"
    by code_simp
  from d c1 c2 c3 show ?thesis by blast
qed

text \<open>
  Claim C9, as amended. \<open>updateFuncionario\<close> needs every field: when the name, the
  email, the password, the commute flag, the cargo or its id is omitted, the operation
  fails and executes no statement. The one statement it can execute is the UPDATE of all
  five columns, whose password parameter is the digest of the trimmed password of the
  payload.
\<close>

theorem update_requires_every_field:
  "((json_nomeFuncionario j = JUndefined \<or> json_email j = JUndefined \<or>
     json_senha j = JUndefined \<or> json_recebeValeTransporte j = JUndefined \<or>
     json_cargo j = None \<or> (\<exists>cj. json_cargo j = Some cj \<and> json_idCargo cj = JUndefined)) \<longrightarrow>
    (\<exists>e. updateFuncionario rt i \<lparr>body_funcionario = Some j\<rparr> db = (Inl e, db))) \<and>
   (executed (snd (updateFuncionario rt i \<lparr>body_funcionario = Some j\<rparr> db)) = executed db \<or>
    (\<exists>pw d c f. json_senha j = JStr pw \<and> bcrypt_hash rt (JStr (trim pw)) 12 = Inr d \<and>
       update_assign (StringToNumber rt) i j c = Inr f \<and>
       executed (snd (updateFuncionario rt i \<lparr>body_funcionario = Some j\<rparr> db)) =
         executed db @
           [(SQL_update_com_senha,
             [js_str (nomeFuncionario f), js_str (email f), JStr d,
              js_int (recebeValeTransporte f), js_int (idCargo c), js_int (idFuncionario f)])]))"
proof (intro conjI impI)
  assume om: "json_nomeFuncionario j = JUndefined \<or> json_email j = JUndefined \<or>
     json_senha j = JUndefined \<or> json_recebeValeTransporte j = JUndefined \<or>
     json_cargo j = None \<or> (\<exists>cj. json_cargo j = Some cj \<and> json_idCargo cj = JUndefined)"
  show "\<exists>e. updateFuncionario rt i \<lparr>body_funcionario = Some j\<rparr> db = (Inl e, db)"
  proof (cases "json_cargo j")
    case None
    then show ?thesis by (simp add: updateFuncionario_def throw_def)
  next
    case (Some cj)
    show ?thesis
    proof (cases "Cargo_set_idCargo (StringToNumber rt) (json_idCargo cj) new_Cargo")
      case (Inl e)
      with Some show ?thesis by (simp add: updateFuncionario_def)
    next
      case (Inr c)
      then have "json_idCargo cj \<noteq> JUndefined" by auto
      with om Some have "json_nomeFuncionario j = JUndefined \<or> json_email j = JUndefined \<or>
           json_senha j = JUndefined \<or> json_recebeValeTransporte j = JUndefined"
        by auto
      from update_assign_omitted [OF this] obtain e
        where "update_assign (StringToNumber rt) i j c = Inl e" by blast
      with Some Inr show ?thesis by (simp add: updateFuncionario_def)
    qed
  qed
next
  let ?r = "updateFuncionario rt i \<lparr>body_funcionario = Some j\<rparr> db"
  show "executed (snd ?r) = executed db \<or>
    (\<exists>pw d c f. json_senha j = JStr pw \<and> bcrypt_hash rt (JStr (trim pw)) 12 = Inr d \<and>
       update_assign (StringToNumber rt) i j c = Inr f \<and>
       executed (snd ?r) =
         executed db @
           [(SQL_update_com_senha,
             [js_str (nomeFuncionario f), js_str (email f), JStr d,
              js_int (recebeValeTransporte f), js_int (idCargo c), js_int (idFuncionario f)])])"
  proof (cases "json_cargo j")
    case None
    then show ?thesis by (simp add: updateFuncionario_def throw_def)
  next
    case (Some cj)
    show ?thesis
    proof (cases "Cargo_set_idCargo (StringToNumber rt) (json_idCargo cj) new_Cargo")
      case (Inl e)
      with Some show ?thesis by (simp add: updateFuncionario_def)
    next
      case (Inr c)
      show ?thesis
      proof (cases "update_assign (StringToNumber rt) i j c")
        case (Inl e)
        with Some \<open>Cargo_set_idCargo (StringToNumber rt) (json_idCargo cj) new_Cargo = Inr c\<close>
        show ?thesis by (simp add: updateFuncionario_def)
      next
        case f: (Inr f)
        from update_assign_result [OF this] obtain pw where pw: "json_senha j = JStr pw"
          "password_policy (trim pw)" "senha f = Some (trim pw)" "cargo f = Some c"
          by blast
        from pw(2) have ne: "trim pw \<noteq> []" by (rule policy_nonempty)
        have r: "?r = FuncionarioDAO_update rt f db"
          using Some Inr f by (simp add: updateFuncionario_def)
        show ?thesis
        proof (cases "bcrypt_hash rt (JStr (trim pw)) 12")
          case (Inl m)
          then show ?thesis
            unfolding r using pw ne
            by (simp add: FuncionarioDAO_update_def bcrypt_hash_io_def js_str_def)
        next
          case d: (Inr d)
          have "executed (snd (FuncionarioDAO_update rt f db)) =
             executed db @
               [(SQL_update_com_senha,
                 [js_str (nomeFuncionario f), js_str (email f), JStr d,
                  js_int (recebeValeTransporte f), js_int (idCargo c), js_int (idFuncionario f)])]"
            using pw ne d
            by (simp add: FuncionarioDAO_update_def bcrypt_hash_io_def js_str_def cargo_idCargo_def
                snd_bind_io_pure snd_return_io execute_executed)
          with pw(1) d f show ?thesis unfolding r by blast
        qed
      qed
    qed
  qed
qed

text \<open>An update of John Smith that omits the name fails and leaves the database as it
  was; the same update with the name succeeds.\<close>

theorem update_omitted_field_counterexample:
  "updateFuncionario ref_runtime (JStr ''1'')
     \<lparr>body_funcionario = Some ((john (JNum (Integral 1)))\<lparr>json_nomeFuncionario := JUndefined\<rparr>)\<rparr> db1 =
   (Inl (Error ''nomeFuncionario deve ser uma string.''), db1) \<and>
   fst (updateFuncionario ref_runtime (JStr ''1'')
     \<lparr>body_funcionario = Some (john (JNum (Integral 1)))\<rparr> db1) = Inr True"
  by code_simp

theorem update_requires_every_field_witness:
  "json_senha ((john (JNum (Integral 1)))\<lparr>json_senha := JUndefined\<rparr>) = JUndefined \<and>
   (\<exists>e. updateFuncionario ref_runtime (JStr ''1'')
           \<lparr>body_funcionario = Some ((john (JNum (Integral 1)))\<lparr>json_senha := JUndefined\<rparr>)\<rparr> db1 =
         (Inl e, db1))"
proof -
  have h: "json_senha ((john (JNum (Integral 1)))\<lparr>json_senha := JUndefined\<rparr>) = JUndefined"
    by simp
  from update_requires_every_field [THEN conjunct1, rule_format,
      of "(john (JNum (Integral 1)))\<lparr>json_senha := JUndefined\<rparr>" ref_runtime "JStr ''1''" db1] h
  show ?thesis by blast
qed

text \<open>
  Claim C10. For a field name outside the allow-list of the DAO, \<open>findByField\<close> throws
  and the database is as before: no statement is executed. For a field name in the
  allow-list, the one statement executed is the SELECT with that name in its text and the
  search value as its only bound parameter.
\<close>

theorem findByField_allow_list:
  "(field \<notin> set CargoDAO_allowedFields \<longrightarrow>
      CargoDAO_findByField rt field v db = (Inl (Error (''Campo invalido para busca: '' @ field)), db)) \<and>
   (field \<in> set CargoDAO_allowedFields \<longrightarrow>
      executed (snd (CargoDAO_findByField rt field v db)) =
        executed db @ [(''SELECT * FROM cargo WHERE '' @ field @ '' = ?;'', [v])]) \<and>
   (field \<notin> set FuncionarioDAO_allowedFields \<longrightarrow>
      FuncionarioDAO_findByField rt field v db = (Inl (Error ''Campo invalido para busca''), db)) \<and>
   (field \<in> set FuncionarioDAO_allowedFields \<longrightarrow>
      executed (snd (FuncionarioDAO_findByField rt field v db)) =
        executed db @ [(''SELECT * FROM funcionario WHERE '' @ field @ '' = ?;'', [v])])"
  by (simp add: CargoDAO_findByField_def FuncionarioDAO_findByField_def throw_def execute_executed)

theorem findByField_allow_list_witness:
  "CargoDAO_findByField ref_runtime ''nomeCargo; DROP TABLE cargo'' (JStr ''x'') db0 =
     (Inl (Error ''Campo invalido para busca: nomeCargo; DROP TABLE cargo''), db0) \<and>
   executed (snd (CargoDAO_findByField ref_runtime ''nomeCargo'' (JStr ''x; DROP TABLE cargo'') db0)) =
     [(''SELECT * FROM cargo WHERE nomeCargo = ?;'', [JStr ''x; DROP TABLE cargo''])] \<and>
   FuncionarioDAO_findByField ref_runtime ''nome'' (JStr ''x'') db0 =
     (Inl (Error ''Campo invalido para busca''), db0) \<and>
   executed (snd (FuncionarioDAO_findByField ref_runtime ''email'' (JStr ''x'') db0)) =
     [(''SELECT * FROM funcionario WHERE email = ?;'', [JStr ''x''])]"
proof -
  have h1: "''nomeCargo; DROP TABLE cargo'' \<notin> set CargoDAO_allowedFields"
    by (simp add: CargoDAO_allowedFields_def)
  have h2: "''nomeCargo'' \<in> set CargoDAO_allowedFields"
    by (simp add: CargoDAO_allowedFields_def)
  have h3: "''nome'' \<notin> set FuncionarioDAO_allowedFields"
    by (simp add: FuncionarioDAO_allowedFields_def)
  have h4: "''email'' \<in> set FuncionarioDAO_allowedFields"
    by (simp add: FuncionarioDAO_allowedFields_def)
  have e: "executed db0 = []" by (simp add: db0_def)
  from findByField_allow_list [where field = "''nomeCargo; DROP TABLE cargo''" and rt = ref_runtime
      and v = "JStr ''x''" and db = db0] h1
  have c1: "CargoDAO_findByField ref_runtime ''nomeCargo; DROP TABLE cargo'' (JStr ''x'') db0 =
     (Inl (Error ''Campo invalido para busca: nomeCargo; DROP TABLE cargo''), db0)"
    by simp
  from findByField_allow_list [where field = "''nomeCargo''" and rt = ref_runtime
      and v = "JStr ''x; DROP TABLE cargo''" and db = db0] h2 e
  have c2: "executed (snd (CargoDAO_findByField ref_runtime ''nomeCargo'' (JStr ''x; DROP TABLE cargo'') db0)) =
     [(''SELECT * FROM cargo WHERE nomeCargo = ?;'', [JStr ''x; DROP TABLE cargo''])]"
    by simp
  from findByField_allow_list [where field = "''nome''" and rt = ref_runtime
      and v = "JStr ''x''" and db = db0] h3
  have c3: "FuncionarioDAO_findByField ref_runtime ''nome'' (JStr ''x'') db0 =
     (Inl (Error ''Campo invalido para busca''), db0)"
    by simp
  from findByField_allow_list [where field = "''email''" and rt = ref_runtime
      and v = "JStr ''x''" and db = db0] h4 e
  have c4: "executed (snd (FuncionarioDAO_findByField ref_runtime ''email'' (JStr ''x'') db0)) =
     [(''SELECT * FROM funcionario WHERE email = ?;'', [JStr ''x''])]"
    by simp
  from c1 c2 c3 c4 show ?thesis by blast
qed

end
